theory Spec2Isabelle
  imports Main "HOL-Library.AList"
begin

section \<open>Text\<close>

text \<open>
  A JavaScript string is modelled as a \<open>string\<close>: the UTF-8 bytes of its text. The
  streaming loops work on the text that \<open>decoder.decode(value, {stream: true})\<close> returns
  for each read, so a chunk is a \<open>string\<close> as well.
\<close>

text \<open>\<open>s.split('\n')\<close>: always at least one segment; \<open>''''\<close> gives \<open>['''']\<close>.\<close>

fun split_nl :: "string \<Rightarrow> string list" where
  "split_nl [] = [[]]"
| "split_nl (c # cs) =
     (if c = CHR 0x0A then [] # split_nl cs
      else (case split_nl cs of [] \<Rightarrow> [[c]] | l # ls \<Rightarrow> (c # l) # ls))"

text \<open>\<open>s.startsWith(p)\<close>, \<open>s.includes(p)\<close>, and \<open>s.replace(p, r)\<close> with a string
  pattern, which replaces the first occurrence only.\<close>

definition startsWith :: "string \<Rightarrow> string \<Rightarrow> bool" where
  "startsWith s p = (take (length p) s = p)"

fun str_includes :: "string \<Rightarrow> string \<Rightarrow> bool" where
  "str_includes [] p = (p = [])"
| "str_includes (c # cs) p = (startsWith (c # cs) p \<or> str_includes cs p)"

fun replace_first :: "string \<Rightarrow> string \<Rightarrow> string \<Rightarrow> string" where
  "replace_first p r [] = (if p = [] then r else [])"
| "replace_first p r (c # cs) =
     (if startsWith (c # cs) p then r @ drop (length p) (c # cs)
      else c # replace_first p r cs)"

text \<open>
  \<open>s.trim()\<close> removes white space and line terminators from both ends: TAB, LF, VT, FF,
  CR, SP, and, in UTF-8, U+00A0, U+1680, U+2000 to U+200A, U+2028, U+2029, U+202F, U+205F,
  U+3000 and U+FEFF.
\<close>

definition ws1 :: "char \<Rightarrow> bool" where
  "ws1 a = (a \<in> {CHR 0x09, CHR 0x0A, CHR 0x0B, CHR 0x0C, CHR 0x0D, CHR 0x20})"

definition ws2 :: "char \<Rightarrow> char \<Rightarrow> bool" where
  "ws2 a b = (a = CHR 0xC2 \<and> b = CHR 0xA0)"

definition ws3 :: "char \<Rightarrow> char \<Rightarrow> char \<Rightarrow> bool" where
  "ws3 a b c =
     ((a = CHR 0xE1 \<and> b = CHR 0x9A \<and> c = CHR 0x80) \<or>
      (a = CHR 0xE2 \<and> b = CHR 0x80 \<and>
         c \<in> {CHR 0x80, CHR 0x81, CHR 0x82, CHR 0x83, CHR 0x84, CHR 0x85, CHR 0x86,
              CHR 0x87, CHR 0x88, CHR 0x89, CHR 0x8A, CHR 0xA8, CHR 0xA9, CHR 0xAF}) \<or>
      (a = CHR 0xE2 \<and> b = CHR 0x81 \<and> c = CHR 0x9F) \<or>
      (a = CHR 0xE3 \<and> b = CHR 0x80 \<and> c = CHR 0x80) \<or>
      (a = CHR 0xEF \<and> b = CHR 0xBB \<and> c = CHR 0xBF))"

fun trimStart :: "string \<Rightarrow> string" where
  "trimStart (a # b # c # s) =
     (if ws1 a then trimStart (b # c # s)
      else if ws2 a b then trimStart (c # s)
      else if ws3 a b c then trimStart s
      else a # b # c # s)"
| "trimStart [a, b] =
     (if ws1 a then trimStart [b] else if ws2 a b then [] else [a, b])"
| "trimStart [a] = (if ws1 a then [] else [a])"
| "trimStart [] = []"

text \<open>The same from the end, on the reversed text (so the bytes of a character come
  last byte first).\<close>

fun trimEnd_rev :: "string \<Rightarrow> string" where
  "trimEnd_rev (c # b # a # s) =
     (if ws1 c then trimEnd_rev (b # a # s)
      else if ws2 b c then trimEnd_rev (a # s)
      else if ws3 a b c then trimEnd_rev s
      else c # b # a # s)"
| "trimEnd_rev [c, b] =
     (if ws1 c then trimEnd_rev [b] else if ws2 b c then [] else [c, b])"
| "trimEnd_rev [c] = (if ws1 c then [] else [c])"
| "trimEnd_rev [] = []"

definition trim :: "string \<Rightarrow> string" where
  "trim s = rev (trimEnd_rev (rev (trimStart s)))"

text \<open>The decimal text of a number, as a template literal prints \<open>response.status\<close>.\<close>

fun string_of_nat :: "nat \<Rightarrow> string" where
  "string_of_nat n =
     (if n < 10 then [''0123456789'' ! n]
      else string_of_nat (n div 10) @ [''0123456789'' ! (n mod 10)])"

declare string_of_nat.simps [simp del]

section \<open>JavaScript values\<close>

text \<open>
  The values \<open>JSON.parse\<close> returns. A number is kept as the text \<open>String(n)\<close> gives for
  it (\<open>''0''\<close>, \<open>''0.7''\<close>, \<open>''2048''\<close>, \<open>''NaN''\<close>): the code only tests numbers for
  truthiness and concatenates them to strings, and both \<open>0\<close> and \<open>-0\<close> print as \<open>''0''\<close>.
  An object is the list of its own properties, each name once. \<open>undefined\<close> is \<open>None\<close>
  of \<open>jsval\<close>.
\<close>

datatype json =
    JNull
  | JBool bool
  | JNum string  \<comment> \<open>the number's text, see \<open>jsnum\<close>\<close>
  | JStr string
  | JArr "json list"
  | JObj "(string \<times> json) list"

type_synonym jsval = "json option"

type_synonym jsnum = string

definition num_truthy :: "jsnum \<Rightarrow> bool" where
  "num_truthy n = (n \<noteq> ''0'' \<and> n \<noteq> ''NaN'')"

fun truthy :: "jsval \<Rightarrow> bool" where
  "truthy None = False"
| "truthy (Some JNull) = False"
| "truthy (Some (JBool b)) = b"
| "truthy (Some (JNum n)) = num_truthy n"
| "truthy (Some (JStr s)) = (s \<noteq> [])"
| "truthy (Some (JArr xs)) = True"
| "truthy (Some (JObj kvs)) = True"

text \<open>
  \<open>v.p\<close> on a value that is not \<open>undefined\<close>, for the property names the adapters read
  (none of them is a built-in property of a string, an array or \<open>Object.prototype\<close>):
  \<open>None\<close> is the TypeError of reading a property of \<open>null\<close>.
\<close>

fun dot :: "json \<Rightarrow> string \<Rightarrow> jsval option" where
  "dot JNull p = None"
| "dot (JObj kvs) p = Some (map_of kvs p)"
| "dot v p = Some None"

text \<open>
  \<open>v?.p\<close> and \<open>v?.[0]\<close>: \<open>undefined\<close> on \<open>undefined\<close> and \<open>null\<close>, never a throw.
  Index 0 of a string is its first character; the adapters only read a property of it
  next, which a string does not have.
\<close>

fun opt_dot :: "jsval \<Rightarrow> string \<Rightarrow> jsval" where
  "opt_dot (Some (JObj kvs)) p = map_of kvs p"
| "opt_dot v p = None"

fun opt_idx0 :: "jsval \<Rightarrow> jsval" where
  "opt_idx0 (Some (JArr xs)) = (case xs of [] \<Rightarrow> None | x # _ \<Rightarrow> Some x)"
| "opt_idx0 (Some (JStr s)) = (if s = [] then None else Some (JStr (take 1 s)))"
| "opt_idx0 (Some (JObj kvs)) = map_of kvs ''0''"
| "opt_idx0 v = None"

text \<open>
  String conversion, as \<open>fullResponse += token\<close> applies it. An object prints as
  \<open>[object Object]\<close>, an array as its elements joined by commas (\<open>null\<close> as the empty
  text); an object with an own property \<open>toString\<close> has no callable conversion left
  and the concatenation throws a TypeError (\<open>js_str_ok\<close> is false).
\<close>

fun join_comma :: "string list \<Rightarrow> string" where
  "join_comma [] = []"
| "join_comma [s] = s"
| "join_comma (s # t # ss) = s @ '','' @ join_comma (t # ss)"

fun js_str_ok :: "json \<Rightarrow> bool" where
  "js_str_ok (JObj kvs) = (map_of kvs ''toString'' = None)"
| "js_str_ok (JArr xs) = list_all js_str_ok xs"
| "js_str_ok v = True"

fun js_str :: "json \<Rightarrow> string" where
  "js_str JNull = ''null''"
| "js_str (JBool b) = (if b then ''true'' else ''false'')"
| "js_str (JNum n) = n"
| "js_str (JStr s) = s"
| "js_str (JArr xs) = join_comma (map (\<lambda>x. if x = JNull then [] else js_str x) xs)"
| "js_str (JObj kvs) = ''[object Object]''"

definition to_string :: "json \<Rightarrow> string option" where
  "to_string v = (if js_str_ok v then Some (js_str v) else None)"


section \<open>Errors, callbacks and the transport\<close>

text \<open>A thrown value: its \<open>name\<close> and its \<open>message\<close>. \<open>new Error(m)\<close> has the name
  \<open>Error\<close>; an abort rejects with a \<open>DOMException\<close> named \<open>AbortError\<close>.\<close>

datatype js_error = JsError (err_name: string) (err_message: string)

definition new_Error :: "string \<Rightarrow> js_error" where
  "new_Error m = JsError ''Error'' m"

definition abort_error :: js_error where
  "abort_error = JsError ''AbortError'' ''The user aborted a request.''"

text \<open>\<open>AIStreamCallbacks\<close>: a streaming call is modelled by the list of callback
  invocations it makes, in order. The callbacks themselves return normally.\<close>

datatype event = OnToken json | OnComplete string | OnError js_error

text \<open>
  What \<open>fetch\<close> gives: it rejects, or it resolves to a response whose body (when there
  is one) is read chunk by chunk; a read returns the next chunk's text, rejects, or, at
  the end of the list, reports \<open>done\<close>.
\<close>

datatype read_result = Chunk string | ReadFail js_error

datatype response =
  Response (ok: bool) (status: nat) (statusText: string) (body: "read_result list option")

datatype fetch_result = FetchFail js_error | FetchOk response

text \<open>
  The caller's use of the returned \<open>AbortController\<close>: never, while the request is
  still waiting for the response, or after \<open>k\<close> reads have returned.
\<close>

datatype cancel = NoCancel | CancelBeforeResponse | CancelAfterReads nat

text \<open>
  The host's \<open>fetch\<close> (not code of the repository): \<open>net\<close> is what the network
  delivers when nobody aborts. An abort reaches the transfer only through the \<open>signal\<close>
  option of the request; then the pending \<open>fetch\<close> or \<open>read\<close> rejects with an
  \<open>AbortError\<close>. An abort after the body has ended changes nothing.
\<close>

fun aborted :: "cancel \<Rightarrow> fetch_result \<Rightarrow> fetch_result" where
  "aborted NoCancel net = net"
| "aborted CancelBeforeResponse net = FetchFail abort_error"
| "aborted (CancelAfterReads k) (FetchOk (Response ok' st stt (Some rs))) =
     FetchOk (Response ok' st stt
       (Some (if k \<le> length rs then take k rs @ [ReadFail abort_error] else rs)))"
| "aborted (CancelAfterReads k) net = net"

record request =
  url :: string
  "method" :: string
  headers :: "(string \<times> string) list"
  payload :: "(string \<times> jsval) list"  \<comment> \<open>the object given to \<open>JSON.stringify\<close>\<close>
  signal :: bool  \<comment> \<open>whether \<open>abortController.signal\<close> is passed\<close>

definition fetch :: "request \<Rightarrow> cancel \<Rightarrow> fetch_result \<Rightarrow> fetch_result" where
  "fetch req c net = (if signal req then aborted c net else net)"

section \<open>The provider interface (model/AIProvider)\<close>

datatype role = User | Assistant | System

record AIMessage =
  role :: role
  content :: string
  timestamp :: "jsnum option"

record GenerateOptions =
  temperature :: "jsnum option"
  maxTokens :: "jsnum option"
  systemPrompt :: "string option"

fun role_str :: "role \<Rightarrow> string" where
  "role_str User = ''user''"
| "role_str Assistant = ''assistant''"
| "role_str System = ''system''"

text \<open>\<open>options?.temperature\<close>, \<open>options?.maxTokens\<close>, \<open>options?.systemPrompt\<close>.\<close>

definition opt_temperature :: "GenerateOptions option \<Rightarrow> jsnum option" where
  "opt_temperature options = Option.bind options temperature"

definition opt_maxTokens :: "GenerateOptions option \<Rightarrow> jsnum option" where
  "opt_maxTokens options = Option.bind options maxTokens"

definition opt_systemPrompt :: "GenerateOptions option \<Rightarrow> string option" where
  "opt_systemPrompt options = Option.bind options systemPrompt"

text \<open>\<open>x || d\<close> on an optional number and on an optional string; \<open>x ?? d\<close>.\<close>

definition num_or :: "jsnum option \<Rightarrow> jsnum \<Rightarrow> jsnum" where
  "num_or x d = (case x of None \<Rightarrow> d | Some n \<Rightarrow> if num_truthy n then n else d)"

definition str_or :: "string option \<Rightarrow> string \<Rightarrow> string" where
  "str_or x d = (case x of None \<Rightarrow> d | Some s \<Rightarrow> if s \<noteq> [] then s else d)"

definition nullish :: "'a option \<Rightarrow> 'a \<Rightarrow> 'a" where
  "nullish x d = (case x of None \<Rightarrow> d | Some v \<Rightarrow> v)"

definition str_truthy :: "string option \<Rightarrow> bool" where
  "str_truthy x = (case x of None \<Rightarrow> False | Some s \<Rightarrow> s \<noteq> [])"

definition message_obj :: "AIMessage \<Rightarrow> json" where
  "message_obj m = JObj [(''role'', JStr (role_str (role m))), (''content'', JStr (content m))]"

text \<open>The state of a streaming call: \<open>fullResponse\<close> and the callbacks invoked so far.\<close>

record stream_st =
  fullResponse :: string
  calls :: "event list"

definition stream_start :: stream_st where
  "stream_start = \<lparr>fullResponse = [], calls = []\<rparr>"

text \<open>\<open>callbacks.onComplete(fullResponse)\<close>.\<close>

definition complete :: "stream_st \<Rightarrow> stream_st" where
  "complete st = st\<lparr>calls := calls st @ [OnComplete (fullResponse st)]\<rparr>"

text \<open>
  \<open>if (token) { fullResponse += token; callbacks.onToken(token); }\<close>: \<open>None\<close> when the
  concatenation throws, before anything has changed.
\<close>

fun emit :: "jsval \<Rightarrow> stream_st \<Rightarrow> stream_st option" where
  "emit None st = Some st"
| "emit (Some v) st =
     (if truthy (Some v)
      then (case to_string v of
              None \<Rightarrow> None
            | Some s \<Rightarrow>
                Some (st\<lparr>fullResponse := fullResponse st @ s, calls := calls st @ [OnToken v]\<rparr>))
      else Some st)"

text \<open>
  The handler shared by the Ollama, OpenAI, Anthropic and Groq loops:
  \<open>catch (error) { if (error.name === 'AbortError') onComplete(fullResponse) else onError(error) }\<close>.
\<close>

definition on_throw :: "js_error \<Rightarrow> stream_st \<Rightarrow> event list" where
  "on_throw e st =
     (if err_name e = ''AbortError'' then calls (complete st) else calls st @ [OnError e])"


text \<open>\<open>JSON.parse\<close> belongs to the host as well: the adapters are modelled over any
  parser, \<open>None\<close> being the SyntaxError it throws.\<close>

type_synonym parser = "string \<Rightarrow> json option"

definition json_headers :: "(string \<times> string) list" where
  "json_headers = [(''Content-Type'', ''application/json'')]"

section \<open>OllamaProvider\<close>

record OllamaProvider =
  ollama_baseUrl :: string
  ollama_defaultModel :: string

definition new_OllamaProvider :: "string option \<Rightarrow> string option \<Rightarrow> OllamaProvider" where
  "new_OllamaProvider baseUrl defaultModel =
     \<lparr>ollama_baseUrl = nullish baseUrl ''http://localhost:11434'',
      ollama_defaultModel = nullish defaultModel ''llama2''\<rparr>"

text \<open>\<open>requestUrl\<close> of the host application: it rejects (also on an error status), or
  resolves to a status and a text.\<close>

datatype request_result = RequestFail js_error | RequestOk nat string

definition ollama_prompt :: "string \<Rightarrow> GenerateOptions option \<Rightarrow> string" where
  "ollama_prompt prompt options =
     (if str_truthy (opt_systemPrompt options)
      then the (opt_systemPrompt options) @ [CHR 0x0A, CHR 0x0A] @ prompt
      else prompt)"

definition ollama_options :: "GenerateOptions option \<Rightarrow> json" where
  "ollama_options options =
     JObj [(''temperature'', JNum (num_or (opt_temperature options) ''0.7''))]"

text \<open>The object \<open>generate\<close> posts to \<open>/api/generate\<close>.\<close>

definition ollama_generate_payload ::
  "OllamaProvider \<Rightarrow> string \<Rightarrow> string option \<Rightarrow> GenerateOptions option \<Rightarrow> (string \<times> jsval) list" where
  "ollama_generate_payload p prompt model options =
     [(''model'', Some (JStr (str_or model (ollama_defaultModel p)))),
      (''prompt'', Some (JStr (ollama_prompt prompt options))),
      (''stream'', Some (JBool False)),
      (''options'', Some (ollama_options options))]"

text \<open>
  The body of the inner \<open>try\<close> for one line; whatever it throws is caught and the line
  is skipped, so a throw is the state as it was at that point, without a return.
\<close>

definition ollama_line :: "parser \<Rightarrow> bool \<Rightarrow> string \<Rightarrow> stream_st \<Rightarrow> stream_st \<times> bool" where
  "ollama_line parse isChat line st =
     (case parse line of
        None \<Rightarrow> (st, False)
      | Some json \<Rightarrow>
          (case (if isChat then map_option (\<lambda>m. opt_dot m ''content'') (dot json ''message'')
                 else dot json ''response'') of
             None \<Rightarrow> (st, False)
           | Some token \<Rightarrow>
               (case emit token st of
                  None \<Rightarrow> (st, False)
                | Some st' \<Rightarrow>
                    (case dot json ''done'' of
                       None \<Rightarrow> (st', False)
                     | Some d \<Rightarrow> if truthy d then (complete st', True) else (st', False)))))"

text \<open>The \<open>for\<close> loop over the lines of one chunk; \<open>True\<close> when it has returned from
  the function.\<close>

fun ollama_for :: "parser \<Rightarrow> bool \<Rightarrow> string list \<Rightarrow> stream_st \<Rightarrow> stream_st \<times> bool" where
  "ollama_for parse isChat [] st = (st, False)"
| "ollama_for parse isChat (line # lines) st =
     (case ollama_line parse isChat line st of
        (st', True) \<Rightarrow> (st', True)
      | (st', False) \<Rightarrow> ollama_for parse isChat lines st')"

definition nonblank_lines :: "string \<Rightarrow> string list" where
  "nonblank_lines chunk = filter (\<lambda>line. trim line \<noteq> []) (split_nl chunk)"

text \<open>The \<open>while (true)\<close> loop over the reads, up to the terminal callback.\<close>

fun ollama_while :: "parser \<Rightarrow> bool \<Rightarrow> read_result list \<Rightarrow> stream_st \<Rightarrow> event list" where
  "ollama_while parse isChat [] st = calls (complete st)"
| "ollama_while parse isChat (ReadFail e # rs) st = on_throw e st"
| "ollama_while parse isChat (Chunk chunk # rs) st =
     (case ollama_for parse isChat (nonblank_lines chunk) st of
        (st', True) \<Rightarrow> calls st'
      | (st', False) \<Rightarrow> ollama_while parse isChat rs st')"

definition ollama_streamRequest ::
  "parser \<Rightarrow> string \<Rightarrow> (string \<times> jsval) list \<Rightarrow> bool \<Rightarrow> cancel \<Rightarrow> fetch_result \<Rightarrow> event list" where
  "ollama_streamRequest parse u b isChat c net =
     (case fetch \<lparr>url = u, method = ''POST'', headers = json_headers, payload = b,
                  signal = True\<rparr> c net of
        FetchFail e \<Rightarrow> on_throw e stream_start
      | FetchOk resp \<Rightarrow>
          if \<not> ok resp
          then on_throw (new_Error (''HTTP error! status: '' @ string_of_nat (status resp)))
                 stream_start
          else (case body resp of
                  None \<Rightarrow> on_throw (new_Error ''No response body'') stream_start
                | Some rs \<Rightarrow> ollama_while parse isChat rs stream_start))"

definition ollama_generateStream ::
  "parser \<Rightarrow> OllamaProvider \<Rightarrow> string \<Rightarrow> string \<Rightarrow> GenerateOptions option \<Rightarrow>
   cancel \<Rightarrow> fetch_result \<Rightarrow> event list" where
  "ollama_generateStream parse p prompt model options c net =
     ollama_streamRequest parse (ollama_baseUrl p @ ''/api/generate'')
       [(''model'', Some (JStr (str_or (Some model) (ollama_defaultModel p)))),
        (''prompt'', Some (JStr (ollama_prompt prompt options))),
        (''stream'', Some (JBool True)),
        (''options'', Some (ollama_options options))]
       False c net"

definition ollama_messages :: "AIMessage list \<Rightarrow> GenerateOptions option \<Rightarrow> json list" where
  "ollama_messages messages options =
     (if str_truthy (opt_systemPrompt options)
      then [JObj [(''role'', JStr ''system''),
                  (''content'', JStr (the (opt_systemPrompt options)))]]
      else []) @ map message_obj messages"

definition ollama_chat ::
  "parser \<Rightarrow> OllamaProvider \<Rightarrow> AIMessage list \<Rightarrow> string \<Rightarrow> GenerateOptions option \<Rightarrow>
   cancel \<Rightarrow> fetch_result \<Rightarrow> event list" where
  "ollama_chat parse p messages model options c net =
     ollama_streamRequest parse (ollama_baseUrl p @ ''/api/chat'')
       [(''model'', Some (JStr (str_or (Some model) (ollama_defaultModel p)))),
        (''messages'', Some (JArr (ollama_messages messages options))),
        (''stream'', Some (JBool True)),
        (''options'', Some (ollama_options options))]
       True c net"

text \<open>\<open>isAvailable\<close> and \<open>getModels\<close>, given what the request to \<open>/api/tags\<close> does.
  A result is \<open>Inr\<close> when the promise resolves and \<open>Inl\<close> when it rejects.\<close>

definition ollama_isAvailable :: "OllamaProvider \<Rightarrow> request_result \<Rightarrow> js_error + bool" where
  "ollama_isAvailable p r =
     (case r of RequestFail e \<Rightarrow> Inr False | RequestOk st txt \<Rightarrow> Inr (st = 200))"

text \<open>
  \<open>data.models?.map((m: any) => m.name) || []\<close> inside the \<open>try\<close>: \<open>None\<close> when it
  throws (\<open>data\<close> or an element is \<open>null\<close>, or \<open>models\<close> is a value without a
  callable \<open>map\<close>).
\<close>

fun map_prop :: "string \<Rightarrow> json list \<Rightarrow> jsval list option" where
  "map_prop k [] = Some []"
| "map_prop k (m # ms) =
     (case dot m k of
        None \<Rightarrow> None
      | Some v \<Rightarrow> (case map_prop k ms of None \<Rightarrow> None | Some vs \<Rightarrow> Some (v # vs)))"

definition ollama_model_names :: "json \<Rightarrow> jsval list option" where
  "ollama_model_names data =
     (case dot data ''models'' of
        None \<Rightarrow> None
      | Some None \<Rightarrow> Some []
      | Some (Some JNull) \<Rightarrow> Some []
      | Some (Some (JArr ms)) \<Rightarrow> map_prop ''name'' ms
      | Some (Some v) \<Rightarrow> None)"

definition ollama_getModels ::
  "parser \<Rightarrow> OllamaProvider \<Rightarrow> request_result \<Rightarrow> js_error + jsval list" where
  "ollama_getModels parse p r =
     (case (case r of
              RequestFail e \<Rightarrow> None
            | RequestOk st txt \<Rightarrow> Option.bind (parse txt) ollama_model_names) of
        None \<Rightarrow> Inr [Some (JStr (ollama_defaultModel p))]
      | Some names \<Rightarrow> Inr names)"


section \<open>OpenAIProvider and GroqProvider\<close>

record OpenAIProvider =
  openai_apiKey :: string
  openai_defaultModel :: string
  openai_baseUrl :: string

definition new_OpenAIProvider ::
  "string option \<Rightarrow> string option \<Rightarrow> string option \<Rightarrow> OpenAIProvider" where
  "new_OpenAIProvider apiKey defaultModel baseUrl =
     \<lparr>openai_apiKey = nullish apiKey [],
      openai_defaultModel = nullish defaultModel ''gpt-3.5-turbo'',
      openai_baseUrl = nullish baseUrl ''https://api.openai.com/v1''\<rparr>"

record GroqProvider =
  groq_apiKey :: string
  groq_defaultModel :: string
  groq_baseUrl :: string

definition new_GroqProvider :: "string option \<Rightarrow> string option \<Rightarrow> GroqProvider" where
  "new_GroqProvider apiKey defaultModel =
     \<lparr>groq_apiKey = nullish apiKey [],
      groq_defaultModel = nullish defaultModel ''llama2-70b-4096'',
      groq_baseUrl = ''https://api.groq.com/openai/v1''\<rparr>"

definition openai_isAvailable :: "OpenAIProvider \<Rightarrow> js_error + bool" where
  "openai_isAvailable p = Inr (openai_apiKey p \<noteq> [] \<and> length (openai_apiKey p) > 0)"

definition groq_isAvailable :: "GroqProvider \<Rightarrow> js_error + bool" where
  "groq_isAvailable p = Inr (groq_apiKey p \<noteq> [] \<and> length (groq_apiKey p) > 0)"

text \<open>\<open>await response.json()\<close>: the whole body, parsed; \<open>None\<close> when it rejects.\<close>

fun body_text :: "read_result list \<Rightarrow> string option" where
  "body_text [] = Some []"
| "body_text (Chunk t # rs) = map_option (\<lambda>u. t @ u) (body_text rs)"
| "body_text (ReadFail e # rs) = None"

definition response_json :: "parser \<Rightarrow> response \<Rightarrow> json option" where
  "response_json parse resp =
     (case body resp of
        None \<Rightarrow> parse []
      | Some rs \<Rightarrow> Option.bind (body_text rs) parse)"

text \<open>
  \<open>.filter((m: any) => m.id.includes('gpt'))\<close> on an array: \<open>None\<close> when the callback
  throws (\<open>m\<close> is \<open>null\<close>, or \<open>m.id\<close> is neither a string nor an array).
\<close>

fun gpt_filter :: "json list \<Rightarrow> json list option" where
  "gpt_filter [] = Some []"
| "gpt_filter (m # ms) =
     (case (case dot m ''id'' of
              Some (Some (JStr i)) \<Rightarrow> Some (str_includes i ''gpt'')
            | Some (Some (JArr xs)) \<Rightarrow> Some (JStr ''gpt'' \<in> set xs)
            | _ \<Rightarrow> None) of
        None \<Rightarrow> None
      | Some keep \<Rightarrow>
          (case gpt_filter ms of
             None \<Rightarrow> None
           | Some r \<Rightarrow> Some (if keep then m # r else r)))"

text \<open>\<open>data.data?.filter(...)?.map((m: any) => m.id) || [this.defaultModel]\<close>.\<close>

definition openai_model_ids :: "string \<Rightarrow> json \<Rightarrow> jsval list option" where
  "openai_model_ids defaultModel data =
     (case dot data ''data'' of
        None \<Rightarrow> None
      | Some None \<Rightarrow> Some [Some (JStr defaultModel)]
      | Some (Some JNull) \<Rightarrow> Some [Some (JStr defaultModel)]
      | Some (Some (JArr ms)) \<Rightarrow> Option.bind (gpt_filter ms) (map_prop ''id'')
      | Some (Some v) \<Rightarrow> None)"

definition openai_getModels ::
  "parser \<Rightarrow> OpenAIProvider \<Rightarrow> fetch_result \<Rightarrow> js_error + jsval list" where
  "openai_getModels parse p net =
     (if openai_apiKey p = [] then Inr []
      else
        (case (case net of
                 FetchFail e \<Rightarrow> None
               | FetchOk resp \<Rightarrow>
                   if \<not> ok resp then Some [Some (JStr (openai_defaultModel p))]
                   else Option.bind (response_json parse resp)
                          (openai_model_ids (openai_defaultModel p))) of
           None \<Rightarrow> Inr [Some (JStr (openai_defaultModel p))]
         | Some ids \<Rightarrow> Inr ids))"

text \<open>\<open>data.data?.map((m: any) => m.id) || [this.defaultModel]\<close>.\<close>

definition groq_model_ids :: "string \<Rightarrow> json \<Rightarrow> jsval list option" where
  "groq_model_ids defaultModel data =
     (case dot data ''data'' of
        None \<Rightarrow> None
      | Some None \<Rightarrow> Some [Some (JStr defaultModel)]
      | Some (Some JNull) \<Rightarrow> Some [Some (JStr defaultModel)]
      | Some (Some (JArr ms)) \<Rightarrow> map_prop ''id'' ms
      | Some (Some v) \<Rightarrow> None)"

definition groq_getModels ::
  "parser \<Rightarrow> GroqProvider \<Rightarrow> fetch_result \<Rightarrow> js_error + jsval list" where
  "groq_getModels parse p net =
     (if groq_apiKey p = [] then Inr []
      else
        (case (case net of
                 FetchFail e \<Rightarrow> None
               | FetchOk resp \<Rightarrow>
                   if \<not> ok resp then Some [Some (JStr (groq_defaultModel p))]
                   else Option.bind (response_json parse resp)
                          (groq_model_ids (groq_defaultModel p))) of
           None \<Rightarrow>
             Inr [Some (JStr ''llama2-70b-4096''), Some (JStr ''mixtral-8x7b-32768''),
                  Some (JStr ''gemma-7b-it'')]
         | Some ids \<Rightarrow> Inr ids))"

text \<open>The messages \<open>generate\<close> and \<open>generateStream\<close> build from a prompt.\<close>

definition prompt_messages :: "string \<Rightarrow> GenerateOptions option \<Rightarrow> AIMessage list" where
  "prompt_messages prompt options =
     (if str_truthy (opt_systemPrompt options)
      then [\<lparr>role = System, content = the (opt_systemPrompt options), timestamp = None\<rparr>]
      else []) @ [\<lparr>role = User, content = prompt, timestamp = None\<rparr>]"

text \<open>\<open>chatMessages\<close> of \<open>streamChat\<close>: the system prompt goes first unless a system
  message is there already.\<close>

definition chat_messages :: "AIMessage list \<Rightarrow> GenerateOptions option \<Rightarrow> AIMessage list" where
  "chat_messages messages options =
     (if str_truthy (opt_systemPrompt options) \<and> \<not> list_ex (\<lambda>m. role m = System) messages
      then \<lparr>role = System, content = the (opt_systemPrompt options), timestamp = None\<rparr> # messages
      else messages)"

definition bearer_headers :: "string \<Rightarrow> (string \<times> string) list" where
  "bearer_headers apiKey = json_headers @ [(''Authorization'', ''Bearer '' @ apiKey)]"

definition openai_generate_payload ::
  "OpenAIProvider \<Rightarrow> string \<Rightarrow> string option \<Rightarrow> GenerateOptions option \<Rightarrow> (string \<times> jsval) list" where
  "openai_generate_payload p prompt model options =
     [(''model'', Some (JStr (str_or model (openai_defaultModel p)))),
      (''messages'', Some (JArr (map message_obj (prompt_messages prompt options)))),
      (''temperature'', Some (JNum (num_or (opt_temperature options) ''0.7''))),
      (''max_tokens'', map_option JNum (opt_maxTokens options))]"

definition openai_stream_payload ::
  "OpenAIProvider \<Rightarrow> AIMessage list \<Rightarrow> string \<Rightarrow> GenerateOptions option \<Rightarrow> (string \<times> jsval) list" where
  "openai_stream_payload p messages model options =
     [(''model'', Some (JStr (str_or (Some model) (openai_defaultModel p)))),
      (''messages'', Some (JArr (map message_obj (chat_messages messages options)))),
      (''temperature'', Some (JNum (num_or (opt_temperature options) ''0.7''))),
      (''max_tokens'', map_option JNum (opt_maxTokens options)),
      (''stream'', Some (JBool True))]"

definition groq_generate_payload ::
  "GroqProvider \<Rightarrow> string \<Rightarrow> string option \<Rightarrow> GenerateOptions option \<Rightarrow> (string \<times> jsval) list" where
  "groq_generate_payload p prompt model options =
     [(''model'', Some (JStr (str_or model (groq_defaultModel p)))),
      (''messages'', Some (JArr (map message_obj (prompt_messages prompt options)))),
      (''temperature'', Some (JNum (num_or (opt_temperature options) ''0.7''))),
      (''max_tokens'', Some (JNum (num_or (opt_maxTokens options) ''4096'')))]"

definition groq_stream_payload ::
  "GroqProvider \<Rightarrow> AIMessage list \<Rightarrow> string \<Rightarrow> GenerateOptions option \<Rightarrow> (string \<times> jsval) list" where
  "groq_stream_payload p messages model options =
     [(''model'', Some (JStr (str_or (Some model) (groq_defaultModel p)))),
      (''messages'', Some (JArr (map message_obj (chat_messages messages options)))),
      (''temperature'', Some (JNum (num_or (opt_temperature options) ''0.7''))),
      (''max_tokens'', Some (JNum (num_or (opt_maxTokens options) ''4096''))),
      (''stream'', Some (JBool True))]"

text \<open>
  The read loop of \<open>OpenAIProvider.streamChat\<close>; \<open>GroqProvider.streamChat\<close> repeats it
  word for word, so both use these definitions.
\<close>

definition data_lines :: "string \<Rightarrow> string list" where
  "data_lines chunk = filter (\<lambda>line. startsWith (trim line) ''data:'') (split_nl chunk)"

definition sse_data :: "string \<Rightarrow> string" where
  "sse_data line = trim (replace_first ''data: '' [] line)"

definition openai_line :: "parser \<Rightarrow> string \<Rightarrow> stream_st \<Rightarrow> stream_st \<times> bool" where
  "openai_line parse line st =
     (if sse_data line = ''[DONE]'' then (complete st, True)
      else
        (case parse (sse_data line) of
           None \<Rightarrow> (st, False)
         | Some json \<Rightarrow>
             (case dot json ''choices'' of
                None \<Rightarrow> (st, False)
              | Some choices \<Rightarrow>
                  (let x = opt_dot (opt_dot (opt_idx0 choices) ''delta'') ''content'';
                       token = (if truthy x then x else Some (JStr []))
                   in case emit token st of
                        None \<Rightarrow> (st, False)
                      | Some st' \<Rightarrow> (st', False)))))"

fun openai_for :: "parser \<Rightarrow> string list \<Rightarrow> stream_st \<Rightarrow> stream_st \<times> bool" where
  "openai_for parse [] st = (st, False)"
| "openai_for parse (line # lines) st =
     (case openai_line parse line st of
        (st', True) \<Rightarrow> (st', True)
      | (st', False) \<Rightarrow> openai_for parse lines st')"

fun openai_while :: "parser \<Rightarrow> read_result list \<Rightarrow> stream_st \<Rightarrow> event list" where
  "openai_while parse [] st = calls (complete st)"
| "openai_while parse (ReadFail e # rs) st = on_throw e st"
| "openai_while parse (Chunk chunk # rs) st =
     (case openai_for parse (data_lines chunk) st of
        (st', True) \<Rightarrow> calls st'
      | (st', False) \<Rightarrow> openai_while parse rs st')"

text \<open>From the \<open>fetch\<close> to the terminal callback; \<open>vendor\<close> is the word the error
  message starts with.\<close>

definition sse_stream :: "parser \<Rightarrow> string \<Rightarrow> request \<Rightarrow> cancel \<Rightarrow> fetch_result \<Rightarrow> event list" where
  "sse_stream parse vendor req c net =
     (case fetch req c net of
        FetchFail e \<Rightarrow> on_throw e stream_start
      | FetchOk resp \<Rightarrow>
          if \<not> ok resp
          then on_throw (new_Error (vendor @ '' API error: '' @ string_of_nat (status resp)))
                 stream_start
          else (case body resp of
                  None \<Rightarrow> on_throw (new_Error ''No response body'') stream_start
                | Some rs \<Rightarrow> openai_while parse rs stream_start))"

definition openai_streamChat ::
  "parser \<Rightarrow> OpenAIProvider \<Rightarrow> AIMessage list \<Rightarrow> string \<Rightarrow> GenerateOptions option \<Rightarrow>
   cancel \<Rightarrow> fetch_result \<Rightarrow> event list" where
  "openai_streamChat parse p messages model options c net =
     sse_stream parse ''OpenAI''
       \<lparr>url = openai_baseUrl p @ ''/chat/completions'', method = ''POST'',
        headers = bearer_headers (openai_apiKey p),
        payload = openai_stream_payload p messages model options, signal = True\<rparr> c net"

definition openai_chat ::
  "parser \<Rightarrow> OpenAIProvider \<Rightarrow> AIMessage list \<Rightarrow> string \<Rightarrow> GenerateOptions option \<Rightarrow>
   cancel \<Rightarrow> fetch_result \<Rightarrow> event list" where
  "openai_chat parse p messages model options c net =
     openai_streamChat parse p messages model options c net"

definition openai_generateStream ::
  "parser \<Rightarrow> OpenAIProvider \<Rightarrow> string \<Rightarrow> string \<Rightarrow> GenerateOptions option \<Rightarrow>
   cancel \<Rightarrow> fetch_result \<Rightarrow> event list" where
  "openai_generateStream parse p prompt model options c net =
     openai_chat parse p (prompt_messages prompt options) model options c net"

definition groq_streamChat ::
  "parser \<Rightarrow> GroqProvider \<Rightarrow> AIMessage list \<Rightarrow> string \<Rightarrow> GenerateOptions option \<Rightarrow>
   cancel \<Rightarrow> fetch_result \<Rightarrow> event list" where
  "groq_streamChat parse p messages model options c net =
     sse_stream parse ''Groq''
       \<lparr>url = groq_baseUrl p @ ''/chat/completions'', method = ''POST'',
        headers = bearer_headers (groq_apiKey p),
        payload = groq_stream_payload p messages model options, signal = True\<rparr> c net"

definition groq_chat ::
  "parser \<Rightarrow> GroqProvider \<Rightarrow> AIMessage list \<Rightarrow> string \<Rightarrow> GenerateOptions option \<Rightarrow>
   cancel \<Rightarrow> fetch_result \<Rightarrow> event list" where
  "groq_chat parse p messages model options c net =
     groq_streamChat parse p messages model options c net"

definition groq_generateStream ::
  "parser \<Rightarrow> GroqProvider \<Rightarrow> string \<Rightarrow> string \<Rightarrow> GenerateOptions option \<Rightarrow>
   cancel \<Rightarrow> fetch_result \<Rightarrow> event list" where
  "groq_generateStream parse p prompt model options c net =
     groq_chat parse p (prompt_messages prompt options) model options c net"


section \<open>AnthropicProvider\<close>

record AnthropicProvider =
  anthropic_apiKey :: string
  anthropic_defaultModel :: string
  anthropic_baseUrl :: string

definition new_AnthropicProvider :: "string option \<Rightarrow> string option \<Rightarrow> AnthropicProvider" where
  "new_AnthropicProvider apiKey defaultModel =
     \<lparr>anthropic_apiKey = nullish apiKey [],
      anthropic_defaultModel = nullish defaultModel ''claude-3-haiku-20240307'',
      anthropic_baseUrl = ''https://api.anthropic.com/v1''\<rparr>"

definition anthropic_isAvailable :: "AnthropicProvider \<Rightarrow> js_error + bool" where
  "anthropic_isAvailable p =
     Inr (anthropic_apiKey p \<noteq> [] \<and> length (anthropic_apiKey p) > 0)"

definition anthropic_getModels :: "AnthropicProvider \<Rightarrow> js_error + jsval list" where
  "anthropic_getModels p =
     Inr [Some (JStr ''claude-3-opus-20240229''), Some (JStr ''claude-3-sonnet-20240229''),
          Some (JStr ''claude-3-haiku-20240307''), Some (JStr ''claude-2.1''),
          Some (JStr ''claude-2.0''), Some (JStr ''claude-instant-1.2'')]"

definition anthropic_headers :: "AnthropicProvider \<Rightarrow> (string \<times> string) list" where
  "anthropic_headers p =
     json_headers @ [(''x-api-key'', anthropic_apiKey p), (''anthropic-version'', ''2023-06-01'')]"

definition anthropic_generate_payload ::
  "AnthropicProvider \<Rightarrow> string \<Rightarrow> string option \<Rightarrow> GenerateOptions option \<Rightarrow> (string \<times> jsval) list" where
  "anthropic_generate_payload p prompt model options =
     [(''model'', Some (JStr (str_or model (anthropic_defaultModel p)))),
      (''max_tokens'', Some (JNum (num_or (opt_maxTokens options) ''4096''))),
      (''system'', map_option JStr (opt_systemPrompt options)),
      (''messages'', Some (JArr [JObj [(''role'', JStr ''user''), (''content'', JStr prompt)]]))]"

text \<open>\<open>options?.systemPrompt || messages.find(m => m.role === 'system')?.content\<close>.\<close>

definition anthropic_system :: "AIMessage list \<Rightarrow> GenerateOptions option \<Rightarrow> string option" where
  "anthropic_system messages options =
     (if str_truthy (opt_systemPrompt options) then opt_systemPrompt options
      else map_option content (find (\<lambda>m. role m = System) messages))"

definition anthropic_stream_payload ::
  "AnthropicProvider \<Rightarrow> AIMessage list \<Rightarrow> string \<Rightarrow> GenerateOptions option \<Rightarrow> (string \<times> jsval) list" where
  "anthropic_stream_payload p messages model options =
     [(''model'', Some (JStr (str_or (Some model) (anthropic_defaultModel p)))),
      (''max_tokens'', Some (JNum (num_or (opt_maxTokens options) ''4096''))),
      (''system'', map_option JStr (anthropic_system messages options)),
      (''messages'', Some (JArr (map message_obj (filter (\<lambda>m. role m \<noteq> System) messages)))),
      (''stream'', Some (JBool True))]"

definition anthropic_line :: "parser \<Rightarrow> string \<Rightarrow> stream_st \<Rightarrow> stream_st \<times> bool" where
  "anthropic_line parse line st =
     (if \<not> startsWith line ''data:'' then (st, False)
      else if sse_data line = [] \<or> sse_data line = ''[DONE]'' then (st, False)
      else
        (case parse (sse_data line) of
           None \<Rightarrow> (st, False)
         | Some json \<Rightarrow>
             (case dot json ''type'' of
                None \<Rightarrow> (st, False)
              | Some ty \<Rightarrow>
                  (case (if ty = Some (JStr ''content_block_delta'')
                         then (case dot json ''delta'' of
                                 None \<Rightarrow> None
                               | Some delta \<Rightarrow> emit (opt_dot delta ''text'') st)
                         else Some st) of
                     None \<Rightarrow> (st, False)
                   | Some st' \<Rightarrow>
                       if ty = Some (JStr ''message_stop'') then (complete st', True)
                       else (st', False)))))"

fun anthropic_for :: "parser \<Rightarrow> string list \<Rightarrow> stream_st \<Rightarrow> stream_st \<times> bool" where
  "anthropic_for parse [] st = (st, False)"
| "anthropic_for parse (line # lines) st =
     (case anthropic_line parse line st of
        (st', True) \<Rightarrow> (st', True)
      | (st', False) \<Rightarrow> anthropic_for parse lines st')"

fun anthropic_while :: "parser \<Rightarrow> read_result list \<Rightarrow> stream_st \<Rightarrow> event list" where
  "anthropic_while parse [] st = calls (complete st)"
| "anthropic_while parse (ReadFail e # rs) st = on_throw e st"
| "anthropic_while parse (Chunk chunk # rs) st =
     (case anthropic_for parse (nonblank_lines chunk) st of
        (st', True) \<Rightarrow> calls st'
      | (st', False) \<Rightarrow> anthropic_while parse rs st')"

definition anthropic_streamChat ::
  "parser \<Rightarrow> AnthropicProvider \<Rightarrow> AIMessage list \<Rightarrow> string \<Rightarrow> GenerateOptions option \<Rightarrow>
   cancel \<Rightarrow> fetch_result \<Rightarrow> event list" where
  "anthropic_streamChat parse p messages model options c net =
     (case fetch \<lparr>url = anthropic_baseUrl p @ ''/messages'', method = ''POST'',
                  headers = anthropic_headers p,
                  payload = anthropic_stream_payload p messages model options,
                  signal = True\<rparr> c net of
        FetchFail e \<Rightarrow> on_throw e stream_start
      | FetchOk resp \<Rightarrow>
          if \<not> ok resp
          then on_throw (new_Error (''Anthropic API error: '' @ string_of_nat (status resp)))
                 stream_start
          else (case body resp of
                  None \<Rightarrow> on_throw (new_Error ''No response body'') stream_start
                | Some rs \<Rightarrow> anthropic_while parse rs stream_start))"

definition anthropic_chat ::
  "parser \<Rightarrow> AnthropicProvider \<Rightarrow> AIMessage list \<Rightarrow> string \<Rightarrow> GenerateOptions option \<Rightarrow>
   cancel \<Rightarrow> fetch_result \<Rightarrow> event list" where
  "anthropic_chat parse p messages model options c net =
     anthropic_streamChat parse p messages model options c net"

definition anthropic_generateStream ::
  "parser \<Rightarrow> AnthropicProvider \<Rightarrow> string \<Rightarrow> string \<Rightarrow> GenerateOptions option \<Rightarrow>
   cancel \<Rightarrow> fetch_result \<Rightarrow> event list" where
  "anthropic_generateStream parse p prompt model options c net =
     anthropic_chat parse p [\<lparr>role = User, content = prompt, timestamp = None\<rparr>] model options c net"

section \<open>GeminiProvider\<close>

record GeminiProvider =
  gemini_apiKey :: string

definition new_GeminiProvider :: GeminiProvider where
  "new_GeminiProvider = \<lparr>gemini_apiKey = []\<rparr>"

definition gemini_setApiKey :: "string \<Rightarrow> GeminiProvider \<Rightarrow> GeminiProvider" where
  "gemini_setApiKey key p = p\<lparr>gemini_apiKey := key\<rparr>"

definition gemini_isAvailable :: "GeminiProvider \<Rightarrow> js_error + bool" where
  "gemini_isAvailable p = Inr (gemini_apiKey p \<noteq> [])"

definition gemini_getModels :: "GeminiProvider \<Rightarrow> js_error + jsval list" where
  "gemini_getModels p =
     Inr [Some (JStr ''gemini-pro''), Some (JStr ''gemini-1.5-pro''),
          Some (JStr ''gemini-1.5-flash'')]"

definition gemini_generationConfig :: "GenerateOptions option \<Rightarrow> json" where
  "gemini_generationConfig options =
     JObj [(''temperature'', JNum (nullish (opt_temperature options) ''0.7'')),
           (''maxOutputTokens'', JNum (nullish (opt_maxTokens options) ''2048''))]"

definition gemini_safetySettings :: json where
  "gemini_safetySettings =
     JArr (map (\<lambda>c. JObj [(''category'', JStr c), (''threshold'', JStr ''BLOCK_NONE'')])
       [''HARM_CATEGORY_HARASSMENT'', ''HARM_CATEGORY_HATE_SPEECH'',
        ''HARM_CATEGORY_SEXUALLY_EXPLICIT'', ''HARM_CATEGORY_DANGEROUS_CONTENT''])"

definition gemini_payload :: "json list \<Rightarrow> GenerateOptions option \<Rightarrow> (string \<times> jsval) list" where
  "gemini_payload contents options =
     [(''contents'', Some (JArr contents)),
      (''generationConfig'', Some (gemini_generationConfig options)),
      (''safetySettings'', Some gemini_safetySettings)]"

definition gemini_prompt_contents :: "string \<Rightarrow> json list" where
  "gemini_prompt_contents prompt = [JObj [(''parts'', JArr [JObj [(''text'', JStr prompt)]])]]"

definition gemini_chat_contents :: "AIMessage list \<Rightarrow> json list" where
  "gemini_chat_contents messages =
     map (\<lambda>msg. JObj [(''role'', JStr (if role msg = Assistant then ''model'' else ''user'')),
                      (''parts'', JArr [JObj [(''text'', JStr (content msg))]])]) messages"

text \<open>The requests of \<open>generate\<close> and of the two streaming calls. \<open>generateStream\<close>
  and \<open>chat\<close> create an \<open>AbortController\<close> and return it, and give \<open>fetch\<close> the method,
  the headers and the body only. Their bodies are the same text but for the contents sent
  and one word of the failure message (\<open>what\<close> below).\<close>

definition gemini_url :: "GeminiProvider \<Rightarrow> string \<Rightarrow> string \<Rightarrow> string" where
  "gemini_url p model call =
     ''https://generativelanguage.googleapis.com/v1beta/models/'' @ model @ '':'' @ call
       @ ''key='' @ gemini_apiKey p"

definition gemini_generate_request ::
  "GeminiProvider \<Rightarrow> string \<Rightarrow> string \<Rightarrow> GenerateOptions option \<Rightarrow> request" where
  "gemini_generate_request p prompt model options =
     \<lparr>url = gemini_url p model ''generateContent?'', method = ''POST'', headers = json_headers,
      payload = gemini_payload (gemini_prompt_contents prompt) options, signal = False\<rparr>"

definition gemini_stream_request ::
  "GeminiProvider \<Rightarrow> json list \<Rightarrow> string \<Rightarrow> GenerateOptions option \<Rightarrow> request" where
  "gemini_stream_request p contents model options =
     \<lparr>url = gemini_url p model ''streamGenerateContent?alt=sse&'', method = ''POST'',
      headers = json_headers, payload = gemini_payload contents options, signal = False\<rparr>"

definition gemini_line :: "parser \<Rightarrow> string \<Rightarrow> event list \<Rightarrow> event list" where
  "gemini_line parse l evs =
     (let line = trim l in
      if startsWith line ''data: '' then
        (case parse (drop 6 line) of
           None \<Rightarrow> evs
         | Some json \<Rightarrow>
             (case dot json ''candidates'' of
                None \<Rightarrow> evs
              | Some candidates \<Rightarrow>
                  (let x = opt_dot (opt_idx0 (opt_dot (opt_dot (opt_idx0 candidates)
                             ''content'') ''parts'')) ''text'';
                       text = (if truthy x then x else Some (JStr []))
                   in case text of
                        None \<Rightarrow> evs
                      | Some v \<Rightarrow> if truthy text then evs @ [OnToken v] else evs)))
      else evs)"

text \<open>
  The read loop with its carry-over \<open>buffer\<close>: every segment but the last is handled,
  the last one is kept for the next read. The result is the callbacks made and the
  error of a rejected read, if one ended the loop.
\<close>

fun gemini_while ::
  "parser \<Rightarrow> read_result list \<Rightarrow> string \<Rightarrow> event list \<Rightarrow> event list \<times> js_error option" where
  "gemini_while parse [] buffer evs = (evs, None)"
| "gemini_while parse (ReadFail e # rs) buffer evs = (evs, Some e)"
| "gemini_while parse (Chunk chunk # rs) buffer evs =
     (let lines = split_nl (buffer @ chunk)
      in gemini_while parse rs (last lines) (fold (gemini_line parse) (butlast lines) evs))"

definition gemini_failed :: "string \<Rightarrow> js_error \<Rightarrow> event" where
  "gemini_failed what e = OnError (new_Error (''Gemini '' @ what @ '' failed: '' @ err_message e))"

definition gemini_stream ::
  "parser \<Rightarrow> GeminiProvider \<Rightarrow> string \<Rightarrow> request \<Rightarrow> cancel \<Rightarrow> fetch_result \<Rightarrow> event list" where
  "gemini_stream parse p what req c net =
     (if gemini_apiKey p = [] then [OnError (new_Error ''Gemini API key not configured'')]
      else
        (case fetch req c net of
           FetchFail e \<Rightarrow> [gemini_failed what e]
         | FetchOk resp \<Rightarrow>
             if \<not> ok resp
             then [OnError (new_Error (''Gemini API error: '' @ statusText resp))]
             else (case body resp of
                     None \<Rightarrow> [OnError (new_Error ''No response body'')]
                   | Some rs \<Rightarrow>
                       (case gemini_while parse rs [] [] of
                          (evs, None) \<Rightarrow> evs @ [OnComplete []]
                        | (evs, Some e) \<Rightarrow> evs @ [gemini_failed what e]))))"

definition gemini_generateStream ::
  "parser \<Rightarrow> GeminiProvider \<Rightarrow> string \<Rightarrow> string \<Rightarrow> GenerateOptions option \<Rightarrow>
   cancel \<Rightarrow> fetch_result \<Rightarrow> event list" where
  "gemini_generateStream parse p prompt model options c net =
     gemini_stream parse p ''stream''
       (gemini_stream_request p (gemini_prompt_contents prompt) model options) c net"

definition gemini_chat ::
  "parser \<Rightarrow> GeminiProvider \<Rightarrow> AIMessage list \<Rightarrow> string \<Rightarrow> GenerateOptions option \<Rightarrow>
   cancel \<Rightarrow> fetch_result \<Rightarrow> event list" where
  "gemini_chat parse p messages model options c net =
     gemini_stream parse p ''chat''
       (gemini_stream_request p (gemini_chat_contents messages) model options) c net"


section \<open>ProviderManager\<close>

record BaseConfig =
  enabled :: bool
  defaultModel :: string

record OllamaConfig = BaseConfig +
  ollama_url :: string

record KeyConfig = BaseConfig +
  apiKey :: string

record OpenAIConfig = KeyConfig +
  baseUrl :: "string option"

record ProviderConfig =
  ollama :: OllamaConfig
  openai :: OpenAIConfig
  anthropic :: KeyConfig
  groq :: KeyConfig
  gemini :: KeyConfig

definition DEFAULT_PROVIDER_CONFIG :: ProviderConfig where
  "DEFAULT_PROVIDER_CONFIG =
     \<lparr>ollama = \<lparr>enabled = True, defaultModel = ''llama2'', ollama_url = ''http://localhost:11434''\<rparr>,
      openai = \<lparr>enabled = False, defaultModel = ''gpt-3.5-turbo'', apiKey = [], baseUrl = None\<rparr>,
      anthropic = \<lparr>enabled = False, defaultModel = ''claude-3-haiku-20240307'', apiKey = []\<rparr>,
      groq = \<lparr>enabled = False, defaultModel = ''llama2-70b-4096'', apiKey = []\<rparr>,
      gemini = \<lparr>enabled = False, defaultModel = ''gemini-1.5-pro'', apiKey = []\<rparr>\<rparr>"

datatype AIProvider =
    Ollama OllamaProvider
  | OpenAI OpenAIProvider
  | Anthropic AnthropicProvider
  | Groq GroqProvider
  | Gemini GeminiProvider

text \<open>\<open>providers\<close> is a \<open>Map\<close>: an association list in insertion order, where
  \<open>set\<close> replaces the value of a key that is there and appends a new key.\<close>

record ProviderManager =
  providers :: "(string \<times> AIProvider) list"
  config :: ProviderConfig
  activeProviderId :: string

definition initializeProviders :: "ProviderManager \<Rightarrow> ProviderManager" where
  "initializeProviders m =
     (let cfg = config m;
          m1 = m\<lparr>providers := AList.update ''ollama''
                 (Ollama (new_OllamaProvider (Some (ollama_url (ollama cfg)))
                            (Some (defaultModel (ollama cfg))))) (providers m)\<rparr>;
          m2 = (if apiKey (openai cfg) \<noteq> []
                then m1\<lparr>providers := AList.update ''openai''
                       (OpenAI (new_OpenAIProvider (Some (apiKey (openai cfg)))
                                  (Some (defaultModel (openai cfg))) (baseUrl (openai cfg))))
                       (providers m1)\<rparr>
                else m1);
          m3 = (if apiKey (anthropic cfg) \<noteq> []
                then m2\<lparr>providers := AList.update ''anthropic''
                       (Anthropic (new_AnthropicProvider (Some (apiKey (anthropic cfg)))
                                     (Some (defaultModel (anthropic cfg)))))
                       (providers m2)\<rparr>
                else m2);
          m4 = (if apiKey (groq cfg) \<noteq> []
                then m3\<lparr>providers := AList.update ''groq''
                       (Groq (new_GroqProvider (Some (apiKey (groq cfg)))
                                (Some (defaultModel (groq cfg)))))
                       (providers m3)\<rparr>
                else m3)
      in if apiKey (gemini cfg) \<noteq> []
         then m4\<lparr>providers := AList.update ''gemini''
                (Gemini (gemini_setApiKey (apiKey (gemini cfg)) new_GeminiProvider))
                (providers m4)\<rparr>
         else m4)"

definition new_ProviderManager :: "ProviderConfig option \<Rightarrow> ProviderManager" where
  "new_ProviderManager cfg =
     initializeProviders
       \<lparr>providers = [], config = nullish cfg DEFAULT_PROVIDER_CONFIG,
        activeProviderId = ''ollama''\<rparr>"

definition updateConfig :: "ProviderConfig \<Rightarrow> ProviderManager \<Rightarrow> ProviderManager" where
  "updateConfig cfg m = initializeProviders (m\<lparr>config := cfg, providers := []\<rparr>)"

definition getProvider :: "ProviderManager \<Rightarrow> string \<Rightarrow> AIProvider option" where
  "getProvider m i = map_of (providers m) i"

text \<open>\<open>this.providers.get(this.activeProviderId) || this.providers.get('ollama')!\<close>.\<close>

definition getActiveProvider :: "ProviderManager \<Rightarrow> AIProvider option" where
  "getActiveProvider m =
     (case map_of (providers m) (activeProviderId m) of
        Some p \<Rightarrow> Some p
      | None \<Rightarrow> map_of (providers m) ''ollama'')"

definition setActiveProvider :: "string \<Rightarrow> ProviderManager \<Rightarrow> ProviderManager" where
  "setActiveProvider i m =
     (if map_of (providers m) i \<noteq> None then m\<lparr>activeProviderId := i\<rparr> else m)"

definition getActiveProviderId :: "ProviderManager \<Rightarrow> string" where
  "getActiveProviderId m = activeProviderId m"

definition getAllProviders :: "ProviderManager \<Rightarrow> AIProvider list" where
  "getAllProviders m = map snd (providers m)"

definition getAvailableProviderIds :: "ProviderManager \<Rightarrow> string list" where
  "getAvailableProviderIds m = map fst (providers m)"

text \<open>An entry of \<open>getProviderInfo\<close>; the names are UTF-8, each starting with an emoji.\<close>

record ProviderInfo =
  info_id :: string
  info_name :: string
  available :: bool

definition getProviderInfo :: "ProviderManager \<Rightarrow> ProviderInfo list" where
  "getProviderInfo m =
     [\<lparr>info_id = ''ollama'',
       info_name = [CHR 0xF0, CHR 0x9F, CHR 0xA6, CHR 0x99] @ '' Ollama (Local)'',
       available = enabled (ollama (config m))\<rparr>,
      \<lparr>info_id = ''openai'',
       info_name = [CHR 0xF0, CHR 0x9F, CHR 0xA4, CHR 0x96] @ '' OpenAI (GPT)'',
       available = (enabled (openai (config m)) \<and> apiKey (openai (config m)) \<noteq> [])\<rparr>,
      \<lparr>info_id = ''anthropic'',
       info_name = [CHR 0xF0, CHR 0x9F, CHR 0xA7, CHR 0xA0] @ '' Anthropic (Claude)'',
       available = (enabled (anthropic (config m)) \<and> apiKey (anthropic (config m)) \<noteq> [])\<rparr>,
      \<lparr>info_id = ''groq'',
       info_name = [CHR 0xE2, CHR 0x9A, CHR 0xA1] @ '' Groq (Fast)'',
       available = (enabled (groq (config m)) \<and> apiKey (groq (config m)) \<noteq> [])\<rparr>]"


section \<open>Calls through the \<open>AIProvider\<close> interface\<close>

text \<open>\<open>provider.chat(...)\<close> and \<open>provider.generateStream(...)\<close> on a provider of the
  registry.\<close>

fun chat ::
  "parser \<Rightarrow> AIProvider \<Rightarrow> AIMessage list \<Rightarrow> string \<Rightarrow> GenerateOptions option \<Rightarrow>
   cancel \<Rightarrow> fetch_result \<Rightarrow> event list" where
  "chat parse (Ollama p) = ollama_chat parse p"
| "chat parse (OpenAI p) = openai_chat parse p"
| "chat parse (Anthropic p) = anthropic_chat parse p"
| "chat parse (Groq p) = groq_chat parse p"
| "chat parse (Gemini p) = gemini_chat parse p"

fun generateStream ::
  "parser \<Rightarrow> AIProvider \<Rightarrow> string \<Rightarrow> string \<Rightarrow> GenerateOptions option \<Rightarrow>
   cancel \<Rightarrow> fetch_result \<Rightarrow> event list" where
  "generateStream parse (Ollama p) = ollama_generateStream parse p"
| "generateStream parse (OpenAI p) = openai_generateStream parse p"
| "generateStream parse (Anthropic p) = anthropic_generateStream parse p"
| "generateStream parse (Groq p) = groq_generateStream parse p"
| "generateStream parse (Gemini p) = gemini_generateStream parse p"

section \<open>Notions the properties are stated with\<close>

text \<open>The terminal callbacks of a call, and how many of them it made.\<close>

fun terminal :: "event \<Rightarrow> bool" where
  "terminal (OnToken v) = False"
| "terminal (OnComplete s) = True"
| "terminal (OnError e) = True"

definition terminals :: "event list \<Rightarrow> nat" where
  "terminals evs = length (filter terminal evs)"

text \<open>The text of the tokens delivered, in delivery order.\<close>

fun token_text :: "event \<Rightarrow> string" where
  "token_text (OnToken v) = js_str v"
| "token_text e = []"

definition tokens_text :: "event list \<Rightarrow> string" where
  "tokens_text evs = concat (map token_text evs)"

text \<open>A response with status 200 whose body delivers the reads \<open>rs\<close>.\<close>

definition ok_response :: "read_result list \<Rightarrow> fetch_result" where
  "ok_response rs = FetchOk (Response True 200 ''OK'' (Some rs))"






text \<open>
  \<open>JSON.parse\<close> on the texts of the examples below: the JSON texts are listed with their
  values, and every other text the examples hand to the parser (a half of a record cut in
  two) is a syntax error.
\<close>

definition sample_parse :: parser where
  \<open>sample_parse = map_of
     [(''{"response":"Hi"}'', JObj [(''response'', JStr ''Hi'')]),
      (''{"response":"a"}'', JObj [(''response'', JStr ''a'')]),
      (''{"response":"b"}'', JObj [(''response'', JStr ''b'')]),
      (''{"models":[]}'', JObj [(''models'', JArr [])]),
      (''{"message":{"content":"Hel"}}'',
         JObj [(''message'', JObj [(''content'', JStr ''Hel'')])]),
      (''{"message":{"content":"lo"},"done":true}'',
         JObj [(''message'', JObj [(''content'', JStr ''lo'')]), (''done'', JBool True)]),
      (''{"choices":[{"delta":{"content":"Hi"}}]}'',
         JObj [(''choices'', JArr [JObj [(''delta'', JObj [(''content'', JStr ''Hi'')])]])]),
      (''{"type":"content_block_delta","delta":{"text":"Hi"}}'',
         JObj [(''type'', JStr ''content_block_delta''),
               (''delta'', JObj [(''text'', JStr ''Hi'')])]),
      (''{"candidates":[{"content":{"parts":[{"text":"Hi"}]}}]}'',
         JObj [(''candidates'', JArr [JObj [(''content'',
           JObj [(''parts'', JArr [JObj [(''text'', JStr ''Hi'')]])])]])]),
      (''{"candidates":[{"content":{"parts":[{"text":" there"}]}}]}'',
         JObj [(''candidates'', JArr [JObj [(''content'',
           JObj [(''parts'', JArr [JObj [(''text'', JStr '' there'')]])])]])])]\<close>

definition sample_options :: GenerateOptions where
  "sample_options = \<lparr>temperature = Some ''0'', maxTokens = None, systemPrompt = None\<rparr>"

definition sample_messages :: "AIMessage list" where
  "sample_messages = [\<lparr>role = User, content = ''Say hi'', timestamp = None\<rparr>]"

definition sample_config :: ProviderConfig where
  "sample_config =
     DEFAULT_PROVIDER_CONFIG
       \<lparr>openai := \<lparr>enabled = True, defaultModel = ''gpt-4'', apiKey = ''sk-1'', baseUrl = None\<rparr>,
        gemini := \<lparr>enabled = True, defaultModel = ''gemini-1.5-pro'', apiKey = ''g-1''\<rparr>\<rparr>"


definition sample_ollama :: OllamaProvider where
  "sample_ollama = new_OllamaProvider None None"

definition sample_openai :: OpenAIProvider where
  "sample_openai = new_OpenAIProvider (Some ''sk-1'') None None"

definition sample_gemini :: GeminiProvider where
  "sample_gemini = gemini_setApiKey ''g-1'' new_GeminiProvider"

definition sample_anthropic :: AnthropicProvider where
  "sample_anthropic = new_AnthropicProvider (Some ''sk-ant-1'') None"

definition sample_groq :: GroqProvider where
  "sample_groq = new_GroqProvider (Some ''gsk-1'') None"

text \<open>The local adapter's scenario: two records, the second one with \<open>done\<close>.\<close>

definition hello_reads :: "read_result list" where
  \<open>hello_reads =
     [Chunk ''{"message":{"content":"Hel"}}\<newline>'',
      Chunk ''{"message":{"content":"lo"},"done":true}\<newline>'']\<close>


text \<open>The Gemini adapter is the one that differs from the other four in the streaming
  properties below.\<close>

fun is_gemini :: "AIProvider \<Rightarrow> bool" where
  "is_gemini (Gemini p) = True"
| "is_gemini prov = False"

text \<open>The state of a loop that has made no terminal callback yet and whose
  \<open>fullResponse\<close> is the text of the tokens it has delivered.\<close>

definition accumulating :: "stream_st \<Rightarrow> bool" where
  "accumulating st = (fullResponse st = tokens_text (calls st) \<and> terminals (calls st) = 0)"

text \<open>Whether a promise resolves, and whether it resolves to a list with an element.\<close>

definition resolved :: "js_error + 'a \<Rightarrow> bool" where
  "resolved r = (case r of Inl e \<Rightarrow> False | Inr x \<Rightarrow> True)"

definition resolved_nonempty :: "js_error + jsval list \<Rightarrow> bool" where
  "resolved_nonempty r = (case r of Inl e \<Rightarrow> False | Inr ms \<Rightarrow> ms \<noteq> [])"

text \<open>The request did not succeed: \<open>fetch\<close> rejected, or the status is an error.\<close>

fun fetch_failed :: "fetch_result \<Rightarrow> bool" where
  "fetch_failed (FetchFail e) = True"
| "fetch_failed (FetchOk resp) = (\<not> ok resp)"

definition failed_to_fetch :: js_error where
  "failed_to_fetch = JsError ''TypeError'' ''Failed to fetch''"

text \<open>The registry has an adapter under an identifier; and it has the local adapter
  and exactly the hosted ones whose configured API key is not empty.\<close>

definition registered :: "ProviderManager \<Rightarrow> string \<Rightarrow> bool" where
  "registered m i = (getProvider m i \<noteq> None)"

definition registry_matches_keys :: "ProviderManager \<Rightarrow> bool" where
  "registry_matches_keys m =
     (registered m ''ollama'' \<and>
      registered m ''openai'' = (apiKey (openai (config m)) \<noteq> []) \<and>
      registered m ''anthropic'' = (apiKey (anthropic (config m)) \<noteq> []) \<and>
      registered m ''groq'' = (apiKey (groq (config m)) \<noteq> []) \<and>
      registered m ''gemini'' = (apiKey (gemini (config m)) \<noteq> []))"

section \<open>Exactly one terminal callback\<close>

lemma emit_terminals: "emit tok st = Some st' \<Longrightarrow> terminals (calls st') = terminals (calls st)"
  by (cases tok) (auto simp: terminals_def split: if_splits option.splits)

lemma complete_terminals: "terminals (calls (complete st)) = Suc (terminals (calls st))"
  by (simp add: complete_def terminals_def)

lemma on_throw_terminals: "terminals (on_throw e st) = Suc (terminals (calls st))"
  by (simp add: on_throw_def complete_def terminals_def)

lemma ollama_line_terminals:
  "ollama_line parse isChat line st = (st', b) \<Longrightarrow>
   terminals (calls st') = terminals (calls st) + (if b then 1 else 0)"
  by (auto simp: ollama_line_def complete_terminals split: option.splits if_splits dest: emit_terminals)

lemma ollama_for_terminals:
  "ollama_for parse isChat ls st = (st', b) \<Longrightarrow>
   terminals (calls st') = terminals (calls st) + (if b then 1 else 0)"
proof (induction ls arbitrary: st)
  case Nil
  then show ?case by simp
next
  case (Cons l ls)
  obtain s1 b1 where l: "ollama_line parse isChat l st = (s1, b1)" by fastforce
  from ollama_line_terminals[OF l] Cons l show ?case
    by (cases b1) auto
qed

lemma ollama_while_terminals:
  "terminals (ollama_while parse isChat rs st) = Suc (terminals (calls st))"
proof (induction rs arbitrary: st)
  case Nil
  then show ?case by (simp add: complete_terminals)
next
  case (Cons r rs)
  show ?case
  proof (cases r)
    case (Chunk c)
    obtain s1 b1 where f: "ollama_for parse isChat (nonblank_lines c) st = (s1, b1)" by fastforce
    from ollama_for_terminals[OF f] Cons Chunk f show ?thesis by (cases b1) auto
  next
    case (ReadFail e)
    then show ?thesis by (simp add: on_throw_terminals)
  qed
qed

lemma start_terminals: "terminals (calls stream_start) = 0"
  by (simp add: stream_start_def terminals_def)

lemma ollama_streamRequest_terminals:
  "terminals (ollama_streamRequest parse u b isChat c net) = 1"
  by (simp add: ollama_streamRequest_def on_throw_terminals ollama_while_terminals start_terminals
      split: fetch_result.splits option.splits)


lemma openai_line_terminals:
  "openai_line parse line st = (st', b) \<Longrightarrow>
   terminals (calls st') = terminals (calls st) + (if b then 1 else 0)"
  by (auto simp: openai_line_def Let_def complete_terminals
      split: option.splits if_splits dest: emit_terminals)

lemma openai_for_terminals:
  "openai_for parse ls st = (st', b) \<Longrightarrow>
   terminals (calls st') = terminals (calls st) + (if b then 1 else 0)"
proof (induction ls arbitrary: st)
  case Nil
  then show ?case by simp
next
  case (Cons l ls)
  obtain s1 b1 where l: "openai_line parse l st = (s1, b1)" by fastforce
  from openai_line_terminals[OF l] Cons l show ?case
    by (cases b1) auto
qed

lemma openai_while_terminals:
  "terminals (openai_while parse rs st) = Suc (terminals (calls st))"
proof (induction rs arbitrary: st)
  case Nil
  then show ?case by (simp add: complete_terminals)
next
  case (Cons r rs)
  show ?case
  proof (cases r)
    case (Chunk c)
    obtain s1 b1 where f: "openai_for parse (data_lines c) st = (s1, b1)" by fastforce
    from openai_for_terminals[OF f] Cons Chunk f show ?thesis by (cases b1) auto
  next
    case (ReadFail e)
    then show ?thesis by (simp add: on_throw_terminals)
  qed
qed

lemma sse_stream_terminals: "terminals (sse_stream parse vendor req c net) = 1"
  by (simp add: sse_stream_def on_throw_terminals openai_while_terminals start_terminals
      split: fetch_result.splits option.splits)

lemma anthropic_line_terminals:
  "anthropic_line parse line st = (st', b) \<Longrightarrow>
   terminals (calls st') = terminals (calls st) + (if b then 1 else 0)"
  by (auto simp: anthropic_line_def complete_terminals
      split: option.splits if_splits dest: emit_terminals)

lemma anthropic_for_terminals:
  "anthropic_for parse ls st = (st', b) \<Longrightarrow>
   terminals (calls st') = terminals (calls st) + (if b then 1 else 0)"
proof (induction ls arbitrary: st)
  case Nil
  then show ?case by simp
next
  case (Cons l ls)
  obtain s1 b1 where l: "anthropic_line parse l st = (s1, b1)" by fastforce
  from anthropic_line_terminals[OF l] Cons l show ?case
    by (cases b1) auto
qed

lemma anthropic_while_terminals:
  "terminals (anthropic_while parse rs st) = Suc (terminals (calls st))"
proof (induction rs arbitrary: st)
  case Nil
  then show ?case by (simp add: complete_terminals)
next
  case (Cons r rs)
  show ?case
  proof (cases r)
    case (Chunk c)
    obtain s1 b1 where f: "anthropic_for parse (nonblank_lines c) st = (s1, b1)" by fastforce
    from anthropic_for_terminals[OF f] Cons Chunk f show ?thesis by (cases b1) auto
  next
    case (ReadFail e)
    then show ?thesis by (simp add: on_throw_terminals)
  qed
qed

lemma anthropic_streamChat_terminals:
  "terminals (anthropic_streamChat parse p ms model options c net) = 1"
  by (simp add: anthropic_streamChat_def on_throw_terminals anthropic_while_terminals
      start_terminals split: fetch_result.splits option.splits)

lemma gemini_line_terminals: "terminals (gemini_line parse l evs) = terminals evs"
  by (simp add: gemini_line_def Let_def terminals_def split: option.splits)

lemma gemini_fold_terminals: "terminals (fold (gemini_line parse) ls evs) = terminals evs"
  by (induction ls arbitrary: evs) (simp_all add: gemini_line_terminals)

lemma gemini_while_terminals:
  "gemini_while parse rs buffer evs = (evs', r) \<Longrightarrow> terminals evs' = terminals evs"
proof (induction rs arbitrary: buffer evs)
  case Nil
  then show ?case by simp
next
  case (Cons x rs)
  then show ?case
    by (cases x) (auto simp: Let_def gemini_fold_terminals)
qed

lemma gemini_stream_terminals: "terminals (gemini_stream parse p what req c net) = 1"
proof -
  have "terminals (case gemini_while parse rs [] [] of
                     (evs, None) \<Rightarrow> evs @ [OnComplete []]
                   | (evs, Some e) \<Rightarrow> evs @ [gemini_failed what e]) = 1" for rs
  proof -
    obtain evs r where w: "gemini_while parse rs [] [] = (evs, r)" by fastforce
    from gemini_while_terminals[OF w] have "terminals evs = 0" by (simp add: terminals_def)
    with w show ?thesis
      by (cases r) (simp_all add: terminals_def gemini_failed_def)
  qed
  then show ?thesis
    by (simp add: gemini_stream_def terminals_def gemini_failed_def
        split: fetch_result.splits option.splits)
qed

text \<open>
  Claim C4. Every streaming call (\<open>chat\<close> or \<open>generateStream\<close>, on each of the five
  adapters), whatever the parser returns, whatever the network delivers (a rejected
  \<open>fetch\<close>, an error status, a missing body, any chunks, a rejected read) and whenever the
  caller cancels, invokes exactly one of \<open>onComplete\<close> and \<open>onError\<close>, exactly once.
\<close>

theorem exactly_one_terminal_callback:
  "terminals (chat parse prov messages model options c net) = 1 \<and>
   terminals (generateStream parse prov prompt model options c net) = 1"
  by (cases prov)
     (simp_all add: ollama_chat_def ollama_generateStream_def ollama_streamRequest_terminals
        openai_chat_def openai_generateStream_def openai_streamChat_def
        groq_chat_def groq_generateStream_def groq_streamChat_def sse_stream_terminals
        anthropic_chat_def anthropic_generateStream_def anthropic_streamChat_terminals
        gemini_chat_def gemini_generateStream_def gemini_stream_terminals)

theorem exactly_one_terminal_callback_witness:
  "terminals (chat sample_parse (Ollama sample_ollama) sample_messages ''llama2'' None
     (CancelAfterReads 1) (ok_response hello_reads)) = 1 \<and>
   terminals (generateStream sample_parse (Ollama sample_ollama) ''Say hi'' ''llama2'' None
     (CancelAfterReads 1) (ok_response hello_reads)) = 1"
  by (rule exactly_one_terminal_callback)

section \<open>Malformed records\<close>














































section \<open>Token accumulation\<close>

text \<open>
  The Ollama, OpenAI, Groq and Anthropic loops add every token they deliver to
  \<open>fullResponse\<close>, so a call on these adapters that completes, completes with the text of
  the tokens delivered, whatever the network and the caller do.
\<close>

lemma tokens_text_append: "tokens_text (xs @ ys) = tokens_text xs @ tokens_text ys"
  by (simp add: tokens_text_def)

lemma terminals_append: "terminals (xs @ ys) = terminals xs + terminals ys"
  by (simp add: terminals_def)

lemma emit_accumulating:
  "emit tok st = Some st' \<Longrightarrow> accumulating st \<Longrightarrow> accumulating st'"
  by (cases tok)
     (auto simp: accumulating_def tokens_text_append terminals_append to_string_def
        tokens_text_def terminals_def split: if_splits)

lemma accumulating_start: "accumulating stream_start"
  by (simp add: accumulating_def stream_start_def tokens_text_def terminals_def)


lemma ollama_line_accumulating:
  assumes "ollama_line parse isChat l st = (st', b)" and "accumulating st"
  shows "if b then (\<exists>stm. accumulating stm \<and> st' = complete stm) else accumulating st'"
  using assms
  by (auto simp: ollama_line_def Let_def split: option.splits if_splits dest: emit_accumulating)

lemma ollama_for_accumulating:
  assumes "ollama_for parse isChat ls st = (st', b)" and "accumulating st"
  shows "if b then (\<exists>stm. accumulating stm \<and> st' = complete stm) else accumulating st'"
  using assms
proof (induction ls arbitrary: st)
  case Nil
  then show ?case by auto
next
  case (Cons l ls)
  obtain s1 b1 where l: "ollama_line parse isChat l st = (s1, b1)" by fastforce
  show ?case
  proof (cases b1)
    case True
    with ollama_line_accumulating[OF l Cons.prems(2)] Cons.prems(1) l show ?thesis by auto
  next
    case False
    with ollama_line_accumulating[OF l Cons.prems(2)] have "accumulating s1" by simp
    moreover from Cons.prems(1) l False have "ollama_for parse isChat ls s1 = (st', b)" by simp
    ultimately show ?thesis by (rule Cons.IH[rotated])
  qed
qed

lemma ollama_while_accumulating:
  assumes "accumulating st"
  shows "\<exists>stm. accumulating stm \<and>
           (ollama_while parse isChat rs st = calls (complete stm) \<or>
            (\<exists>e. ollama_while parse isChat rs st = calls stm @ [OnError e]))"
  using assms
proof (induction rs arbitrary: st)
  case Nil
  then show ?case by auto
next
  case (Cons r rs)
  show ?case
  proof (cases r)
    case (Chunk t)
    obtain s1 b1 where l: "ollama_for parse isChat (nonblank_lines t) st = (s1, b1)" by fastforce
    show ?thesis
    proof (cases b1)
      case True
      with ollama_for_accumulating[OF l Cons.prems] Chunk l show ?thesis by auto
    next
      case False
      with ollama_for_accumulating[OF l Cons.prems] have "accumulating s1" by simp
      from Cons.IH[OF this] Chunk l False show ?thesis by simp
    qed
  next
    case (ReadFail e)
    with Cons.prems show ?thesis by (auto simp: on_throw_def)
  qed
qed

lemma openai_line_accumulating:
  assumes "openai_line parse l st = (st', b)" and "accumulating st"
  shows "if b then (\<exists>stm. accumulating stm \<and> st' = complete stm) else accumulating st'"
  using assms
  by (auto simp: openai_line_def Let_def split: option.splits if_splits dest: emit_accumulating)

lemma openai_for_accumulating:
  assumes "openai_for parse ls st = (st', b)" and "accumulating st"
  shows "if b then (\<exists>stm. accumulating stm \<and> st' = complete stm) else accumulating st'"
  using assms
proof (induction ls arbitrary: st)
  case Nil
  then show ?case by auto
next
  case (Cons l ls)
  obtain s1 b1 where l: "openai_line parse l st = (s1, b1)" by fastforce
  show ?case
  proof (cases b1)
    case True
    with openai_line_accumulating[OF l Cons.prems(2)] Cons.prems(1) l show ?thesis by auto
  next
    case False
    with openai_line_accumulating[OF l Cons.prems(2)] have "accumulating s1" by simp
    moreover from Cons.prems(1) l False have "openai_for parse ls s1 = (st', b)" by simp
    ultimately show ?thesis by (rule Cons.IH[rotated])
  qed
qed

lemma openai_while_accumulating:
  assumes "accumulating st"
  shows "\<exists>stm. accumulating stm \<and>
           (openai_while parse rs st = calls (complete stm) \<or>
            (\<exists>e. openai_while parse rs st = calls stm @ [OnError e]))"
  using assms
proof (induction rs arbitrary: st)
  case Nil
  then show ?case by auto
next
  case (Cons r rs)
  show ?case
  proof (cases r)
    case (Chunk t)
    obtain s1 b1 where l: "openai_for parse (data_lines t) st = (s1, b1)" by fastforce
    show ?thesis
    proof (cases b1)
      case True
      with openai_for_accumulating[OF l Cons.prems] Chunk l show ?thesis by auto
    next
      case False
      with openai_for_accumulating[OF l Cons.prems] have "accumulating s1" by simp
      from Cons.IH[OF this] Chunk l False show ?thesis by simp
    qed
  next
    case (ReadFail e)
    with Cons.prems show ?thesis by (auto simp: on_throw_def)
  qed
qed

lemma anthropic_line_accumulating:
  assumes "anthropic_line parse l st = (st', b)" and "accumulating st"
  shows "if b then (\<exists>stm. accumulating stm \<and> st' = complete stm) else accumulating st'"
  using assms
  by (auto simp: anthropic_line_def Let_def split: option.splits if_splits dest: emit_accumulating)

lemma anthropic_for_accumulating:
  assumes "anthropic_for parse ls st = (st', b)" and "accumulating st"
  shows "if b then (\<exists>stm. accumulating stm \<and> st' = complete stm) else accumulating st'"
  using assms
proof (induction ls arbitrary: st)
  case Nil
  then show ?case by auto
next
  case (Cons l ls)
  obtain s1 b1 where l: "anthropic_line parse l st = (s1, b1)" by fastforce
  show ?case
  proof (cases b1)
    case True
    with anthropic_line_accumulating[OF l Cons.prems(2)] Cons.prems(1) l show ?thesis by auto
  next
    case False
    with anthropic_line_accumulating[OF l Cons.prems(2)] have "accumulating s1" by simp
    moreover from Cons.prems(1) l False have "anthropic_for parse ls s1 = (st', b)" by simp
    ultimately show ?thesis by (rule Cons.IH[rotated])
  qed
qed

lemma anthropic_while_accumulating:
  assumes "accumulating st"
  shows "\<exists>stm. accumulating stm \<and>
           (anthropic_while parse rs st = calls (complete stm) \<or>
            (\<exists>e. anthropic_while parse rs st = calls stm @ [OnError e]))"
  using assms
proof (induction rs arbitrary: st)
  case Nil
  then show ?case by auto
next
  case (Cons r rs)
  show ?case
  proof (cases r)
    case (Chunk t)
    obtain s1 b1 where l: "anthropic_for parse (nonblank_lines t) st = (s1, b1)" by fastforce
    show ?thesis
    proof (cases b1)
      case True
      with anthropic_for_accumulating[OF l Cons.prems] Chunk l show ?thesis by auto
    next
      case False
      with anthropic_for_accumulating[OF l Cons.prems] have "accumulating s1" by simp
      from Cons.IH[OF this] Chunk l False show ?thesis by simp
    qed
  next
    case (ReadFail e)
    with Cons.prems show ?thesis by (auto simp: on_throw_def)
  qed
qed


lemma on_throw_start:
  "\<exists>stm. accumulating stm \<and>
     (on_throw e stream_start = calls (complete stm) \<or>
      (\<exists>e'. on_throw e stream_start = calls stm @ [OnError e']))"
  using accumulating_start by (auto simp: on_throw_def)

lemma ollama_streamRequest_accumulating:
  "\<exists>stm. accumulating stm \<and>
     (ollama_streamRequest parse u b isChat c net = calls (complete stm) \<or>
      (\<exists>e. ollama_streamRequest parse u b isChat c net = calls stm @ [OnError e]))"
  unfolding ollama_streamRequest_def
  using on_throw_start ollama_while_accumulating[OF accumulating_start]
  by (simp split: fetch_result.splits option.splits)

lemma sse_stream_accumulating:
  "\<exists>stm. accumulating stm \<and>
     (sse_stream parse vendor req c net = calls (complete stm) \<or>
      (\<exists>e. sse_stream parse vendor req c net = calls stm @ [OnError e]))"
  unfolding sse_stream_def
  using on_throw_start openai_while_accumulating[OF accumulating_start]
  by (simp split: fetch_result.splits option.splits)

lemma anthropic_streamChat_accumulating:
  "\<exists>stm. accumulating stm \<and>
     (anthropic_streamChat parse p ms model options c net = calls (complete stm) \<or>
      (\<exists>e. anthropic_streamChat parse p ms model options c net = calls stm @ [OnError e]))"
  unfolding anthropic_streamChat_def
  using on_throw_start anthropic_while_accumulating[OF accumulating_start]
  by (simp split: fetch_result.splits option.splits)

lemma accumulating_no_complete:
  "accumulating stm \<Longrightarrow> OnComplete s \<notin> set (calls stm)"
proof
  assume a: "accumulating stm" and m: "OnComplete s \<in> set (calls stm)"
  from a have "filter terminal (calls stm) = []"
    by (simp add: accumulating_def terminals_def)
  with m show False
    by (metis filter_empty_conv terminal.simps(2))
qed

lemma completion_is_tokens:
  assumes "accumulating stm"
    and "evs = calls (complete stm) \<or> (\<exists>e. evs = calls stm @ [OnError e])"
    and "OnComplete s \<in> set evs"
  shows "s = tokens_text evs"
  using assms accumulating_no_complete[OF assms(1), of s]
  by (auto simp: complete_def tokens_text_append accumulating_def tokens_text_def)

lemma accumulated_trace:
  assumes "\<exists>stm. accumulating stm \<and>
             (evs = calls (complete stm) \<or> (\<exists>e. evs = calls stm @ [OnError e]))"
  shows "OnComplete s \<in> set evs \<longrightarrow> s = tokens_text evs"
  using assms completion_is_tokens by blast

lemma accumulated_completion:
  assumes "\<not> is_gemini prov"
  shows "(OnComplete s \<in> set (chat parse prov messages model options c net) \<longrightarrow>
            s = tokens_text (chat parse prov messages model options c net)) \<and>
         (OnComplete s \<in> set (generateStream parse prov prompt model options c net) \<longrightarrow>
            s = tokens_text (generateStream parse prov prompt model options c net))"
proof (cases prov)
  case (Ollama p)
  show ?thesis unfolding Ollama
    by (simp add: ollama_chat_def ollama_generateStream_def
        accumulated_trace[OF ollama_streamRequest_accumulating])
next
  case (OpenAI p)
  show ?thesis unfolding OpenAI
    by (simp add: openai_chat_def openai_generateStream_def openai_streamChat_def
        accumulated_trace[OF sse_stream_accumulating])
next
  case (Anthropic p)
  show ?thesis unfolding Anthropic
    by (simp add: anthropic_chat_def anthropic_generateStream_def
        accumulated_trace[OF anthropic_streamChat_accumulating])
next
  case (Groq p)
  show ?thesis unfolding Groq
    by (simp add: groq_chat_def groq_generateStream_def groq_streamChat_def
        accumulated_trace[OF sse_stream_accumulating])
next
  case (Gemini p)
  with assms show ?thesis by simp
qed

text \<open>
  Claim C1 asks that the tokens given to \<open>onToken\<close>, concatenated, are the text given to
  \<open>onComplete\<close>. The Gemini adapter delivers the token \<open>Hi\<close> and then completes with
  the empty text: it calls \<open>onComplete("")\<close> and keeps no \<open>fullResponse\<close>.
\<close>

theorem gemini_completes_with_empty_text:
  \<open>chat sample_parse (Gemini sample_gemini) sample_messages ''gemini-1.5-pro'' None NoCancel
     (ok_response [Chunk ''data: {"candidates":[{"content":{"parts":[{"text":"Hi"}]}}]}\<newline>''])
   = [OnToken (JStr ''Hi''), OnComplete []]\<close>
  by code_simp

section \<open>Records cut by a chunk boundary\<close>

text \<open>
  Claim C2 asks that a record cut in two by a chunk boundary is delivered once the rest
  has arrived. The Ollama, OpenAI, Groq and Anthropic loops split every chunk on its own
  and keep nothing between reads: both halves of the record are dropped as invalid, and
  the token is lost. In one piece the same record gives its token.
\<close>

theorem split_record_is_lost:
  \<open>generateStream sample_parse (Ollama sample_ollama) ''Say hi'' ''llama2'' None NoCancel
     (ok_response [Chunk ''{"response":"H'', Chunk ''i"}\<newline>'']) = [OnComplete []] \<and>
   generateStream sample_parse (Ollama sample_ollama) ''Say hi'' ''llama2'' None NoCancel
     (ok_response [Chunk ''{"response":"Hi"}\<newline>''])
     = [OnToken (JStr ''Hi''), OnComplete ''Hi''] \<and>
   chat sample_parse (OpenAI sample_openai) sample_messages ''gpt-4'' None NoCancel
     (ok_response [Chunk ''data: {"choices":[{"delta":{"con'',
                   Chunk ''tent":"Hi"}}]}\<newline>\<newline>'',
                   Chunk ''data: [DONE]\<newline>\<newline>'']) = [OnComplete []]\<close>
  by code_simp

text \<open>The Gemini loop does keep the unfinished segment, and delivers the token.\<close>

lemma gemini_keeps_split_record:
  \<open>chat sample_parse (Gemini sample_gemini) sample_messages ''gemini-1.5-pro'' None NoCancel
     (ok_response [Chunk ''data: {"candidates":[{"content":{"parts":[{"te'',
                   Chunk ''xt":"Hi"}]}}]}\<newline>''])
   = [OnToken (JStr ''Hi''), OnComplete []]\<close>
  by code_simp

section \<open>Cancellation\<close>

text \<open>
  On the Ollama, OpenAI, Groq and Anthropic adapters a cancel after \<open>k\<close> reads gives the
  callbacks of a stream that ended after \<open>k\<close> reads, and a cancel before the response
  completes with the empty text: the abort goes to \<open>onComplete(fullResponse)\<close>.
\<close>

lemma on_throw_abort: "on_throw abort_error st = calls (complete st)"
  by (simp add: on_throw_def abort_error_def)

lemma ollama_while_abort:
  "ollama_while parse isChat (rs @ [ReadFail abort_error]) st = ollama_while parse isChat rs st"
proof (induction rs arbitrary: st)
  case Nil
  then show ?case by (simp add: on_throw_abort)
next
  case (Cons r rs)
  show ?case
  proof (cases r)
    case (Chunk t)
    obtain s1 b1 where l: "ollama_for parse isChat (nonblank_lines t) st = (s1, b1)" by fastforce
    show ?thesis using Cons Chunk l by (cases b1) simp_all
  next
    case (ReadFail e)
    then show ?thesis by simp
  qed
qed

lemma openai_while_abort:
  "openai_while parse (rs @ [ReadFail abort_error]) st = openai_while parse rs st"
proof (induction rs arbitrary: st)
  case Nil
  then show ?case by (simp add: on_throw_abort)
next
  case (Cons r rs)
  show ?case
  proof (cases r)
    case (Chunk t)
    obtain s1 b1 where l: "openai_for parse (data_lines t) st = (s1, b1)" by fastforce
    show ?thesis using Cons Chunk l by (cases b1) simp_all
  next
    case (ReadFail e)
    then show ?thesis by simp
  qed
qed

lemma anthropic_while_abort:
  "anthropic_while parse (rs @ [ReadFail abort_error]) st = anthropic_while parse rs st"
proof (induction rs arbitrary: st)
  case Nil
  then show ?case by (simp add: on_throw_abort)
next
  case (Cons r rs)
  show ?case
  proof (cases r)
    case (Chunk t)
    obtain s1 b1 where l: "anthropic_for parse (nonblank_lines t) st = (s1, b1)" by fastforce
    show ?thesis using Cons Chunk l by (cases b1) simp_all
  next
    case (ReadFail e)
    then show ?thesis by simp
  qed
qed

lemma fetch_cancel_reads:
  "signal req \<Longrightarrow> k \<le> length rs \<Longrightarrow>
   fetch req (CancelAfterReads k) (ok_response rs) =
     ok_response (take k rs @ [ReadFail abort_error])"
  by (simp add: fetch_def ok_response_def)

lemma fetch_cancel_before: "signal req \<Longrightarrow> fetch req CancelBeforeResponse net = FetchFail abort_error"
  by (simp add: fetch_def)

lemma fetch_no_cancel: "fetch req NoCancel net = net"
  by (simp add: fetch_def)

lemma ollama_streamRequest_cancel:
  "k \<le> length rs \<Longrightarrow>
   ollama_streamRequest parse u b isChat (CancelAfterReads k) (ok_response rs) =
   ollama_streamRequest parse u b isChat NoCancel (ok_response (take k rs))"
  by (simp add: ollama_streamRequest_def fetch_cancel_reads fetch_no_cancel)
     (simp add: ok_response_def ollama_while_abort)

lemma ollama_streamRequest_cancel_before:
  "ollama_streamRequest parse u b isChat CancelBeforeResponse net = [OnComplete []]"
  by (simp add: ollama_streamRequest_def fetch_cancel_before on_throw_abort complete_def
      stream_start_def)

lemma sse_stream_cancel:
  "signal req \<Longrightarrow> k \<le> length rs \<Longrightarrow>
   sse_stream parse vendor req (CancelAfterReads k) (ok_response rs) =
   sse_stream parse vendor req NoCancel (ok_response (take k rs))"
  by (simp add: sse_stream_def fetch_cancel_reads fetch_no_cancel)
     (simp add: ok_response_def openai_while_abort)

lemma sse_stream_cancel_before:
  "signal req \<Longrightarrow> sse_stream parse vendor req CancelBeforeResponse net = [OnComplete []]"
  by (simp add: sse_stream_def fetch_cancel_before on_throw_abort complete_def stream_start_def)

lemma anthropic_streamChat_cancel:
  "k \<le> length rs \<Longrightarrow>
   anthropic_streamChat parse p ms model options (CancelAfterReads k) (ok_response rs) =
   anthropic_streamChat parse p ms model options NoCancel (ok_response (take k rs))"
  by (simp add: anthropic_streamChat_def fetch_cancel_reads fetch_no_cancel)
     (simp add: ok_response_def anthropic_while_abort)

lemma anthropic_streamChat_cancel_before:
  "anthropic_streamChat parse p ms model options CancelBeforeResponse net = [OnComplete []]"
  by (simp add: anthropic_streamChat_def fetch_cancel_before on_throw_abort complete_def
      stream_start_def)


lemma cancel_is_early_end:
  assumes "\<not> is_gemini prov" and "k \<le> length rs"
  shows "chat parse prov messages model options (CancelAfterReads k) (ok_response rs) =
         chat parse prov messages model options NoCancel (ok_response (take k rs)) \<and>
         generateStream parse prov prompt model options (CancelAfterReads k) (ok_response rs) =
         generateStream parse prov prompt model options NoCancel (ok_response (take k rs))"
proof (cases prov)
  case (Ollama p)
  then show ?thesis using assms(2)
    by (simp add: ollama_chat_def ollama_generateStream_def ollama_streamRequest_cancel)
next
  case (OpenAI p)
  then show ?thesis using assms(2)
    by (simp add: openai_chat_def openai_generateStream_def openai_streamChat_def
        sse_stream_cancel)
next
  case (Anthropic p)
  then show ?thesis using assms(2)
    by (simp add: anthropic_chat_def anthropic_generateStream_def anthropic_streamChat_cancel)
next
  case (Groq p)
  then show ?thesis using assms(2)
    by (simp add: groq_chat_def groq_generateStream_def groq_streamChat_def sse_stream_cancel)
next
  case (Gemini p)
  with assms(1) show ?thesis by simp
qed

lemma cancel_before_response:
  assumes "\<not> is_gemini prov"
  shows "chat parse prov messages model options CancelBeforeResponse net = [OnComplete []] \<and>
         generateStream parse prov prompt model options CancelBeforeResponse net = [OnComplete []]"
proof (cases prov)
  case (Ollama p)
  then show ?thesis
    by (simp add: ollama_chat_def ollama_generateStream_def ollama_streamRequest_cancel_before)
next
  case (OpenAI p)
  then show ?thesis
    by (simp add: openai_chat_def openai_generateStream_def openai_streamChat_def
        sse_stream_cancel_before)
next
  case (Anthropic p)
  then show ?thesis
    by (simp add: anthropic_chat_def anthropic_generateStream_def
        anthropic_streamChat_cancel_before)
next
  case (Groq p)
  then show ?thesis
    by (simp add: groq_chat_def groq_generateStream_def groq_streamChat_def
        sse_stream_cancel_before)
next
  case (Gemini p)
  with assms(1) show ?thesis by simp
qed

text \<open>The Gemini calls never hand the controller's signal to \<open>fetch\<close>, so whatever the
  caller does with the handle, the call runs as if it had not been cancelled.\<close>

lemma gemini_ignores_cancel:
  "chat parse (Gemini p) messages model options c net =
     chat parse (Gemini p) messages model options NoCancel net \<and>
   generateStream parse (Gemini p) prompt model options c net =
     generateStream parse (Gemini p) prompt model options NoCancel net"
  by (simp add: gemini_chat_def gemini_generateStream_def gemini_stream_def
      gemini_stream_request_def fetch_def)

text \<open>
  Claim C3 asks that cancelling aborts the transfer and completes with the text
  accumulated so far. On the Gemini adapter a cancel after the first read changes
  nothing: the second chunk is still read, its token is delivered, and the call
  completes with the empty text. The OpenAI adapter stops and completes with \<open>Hi\<close>.
\<close>

theorem gemini_cancel_has_no_effect:
  \<open>signal (gemini_stream_request sample_gemini (gemini_chat_contents sample_messages)
      ''gemini-1.5-pro'' None) = False \<and>
   chat sample_parse (Gemini sample_gemini) sample_messages ''gemini-1.5-pro'' None
     (CancelAfterReads 1)
     (ok_response [Chunk ''data: {"candidates":[{"content":{"parts":[{"text":"Hi"}]}}]}\<newline>'',
                   Chunk ''data: {"candidates":[{"content":{"parts":[{"text":" there"}]}}]}\<newline>''])
   = [OnToken (JStr ''Hi''), OnToken (JStr '' there''), OnComplete []] \<and>
   chat sample_parse (OpenAI sample_openai) sample_messages ''gpt-4'' None
     (CancelAfterReads 1)
     (ok_response [Chunk ''data: {"choices":[{"delta":{"content":"Hi"}}]}\<newline>\<newline>'',
                   Chunk ''data: {"choices":[{"delta":{"content":"Hi"}}]}\<newline>\<newline>''])
   = [OnToken (JStr ''Hi''), OnComplete ''Hi'']\<close>
  by code_simp

section \<open>Model lists\<close>

text \<open>
  Claim C5 says \<open>getModels\<close> never returns an empty list. With no API key the OpenAI
  adapter returns the empty list before any request, and the Ollama adapter returns what
  the server lists, which is empty for a server without models.
\<close>

theorem getModels_can_be_empty:
  \<open>openai_getModels sample_parse (new_OpenAIProvider None None None)
     (FetchFail failed_to_fetch) = Inr [] \<and>
   ollama_getModels sample_parse sample_ollama (RequestOk 200 ''{"models":[]}'') = Inr []\<close>
  by code_simp

text \<open>
  Claim C5, amended. \<open>getModels\<close> never throws, on any adapter, for any configuration
  and network outcome. The list is not empty on Anthropic and Gemini (a fixed list), on
  Ollama when the request fails, and on OpenAI and Groq when an API key is configured and
  the request is rejected or answered with an error status. With an empty API key OpenAI
  and Groq return the empty list.
\<close>

theorem getModels_fallback:
  "resolved (ollama_getModels parse po r) \<and>
   resolved (openai_getModels parse pa net) \<and>
   resolved (groq_getModels parse pg net) \<and>
   resolved_nonempty (anthropic_getModels pn) \<and>
   resolved_nonempty (gemini_getModels pm) \<and>
   resolved_nonempty (ollama_getModels parse po (RequestFail e)) \<and>
   (openai_apiKey pa \<noteq> [] \<and> fetch_failed net \<longrightarrow>
      resolved_nonempty (openai_getModels parse pa net)) \<and>
   (groq_apiKey pg \<noteq> [] \<and> fetch_failed net \<longrightarrow>
      resolved_nonempty (groq_getModels parse pg net)) \<and>
   (openai_apiKey pa = [] \<longrightarrow> openai_getModels parse pa net = Inr []) \<and>
   (groq_apiKey pg = [] \<longrightarrow> groq_getModels parse pg net = Inr [])"
proof -
  have 1: "resolved (ollama_getModels parse po r)"
    by (simp add: resolved_def ollama_getModels_def split: option.splits)
  have 2: "resolved (openai_getModels parse pa net)"
    by (simp add: resolved_def openai_getModels_def split: option.splits)
  have 3: "resolved (groq_getModels parse pg net)"
    by (simp add: resolved_def groq_getModels_def split: option.splits)
  have 4: "resolved_nonempty (anthropic_getModels pn)"
    by (simp add: resolved_nonempty_def anthropic_getModels_def)
  have 5: "resolved_nonempty (gemini_getModels pm)"
    by (simp add: resolved_nonempty_def gemini_getModels_def)
  have 6: "resolved_nonempty (ollama_getModels parse po (RequestFail e))"
    by (simp add: resolved_nonempty_def ollama_getModels_def)
  have 7: "openai_apiKey pa \<noteq> [] \<and> fetch_failed net \<longrightarrow>
      resolved_nonempty (openai_getModels parse pa net)"
    by (cases net) (simp_all add: resolved_nonempty_def openai_getModels_def)
  have 8: "groq_apiKey pg \<noteq> [] \<and> fetch_failed net \<longrightarrow>
      resolved_nonempty (groq_getModels parse pg net)"
    by (cases net) (simp_all add: resolved_nonempty_def groq_getModels_def)
  have 9: "openai_apiKey pa = [] \<longrightarrow> openai_getModels parse pa net = Inr []"
    by (simp add: openai_getModels_def)
  have 10: "groq_apiKey pg = [] \<longrightarrow> groq_getModels parse pg net = Inr []"
    by (simp add: groq_getModels_def)
  from 1 2 3 4 5 6 7 8 9 10 show ?thesis by blast
qed


theorem getModels_fallback_witness:
  "openai_apiKey sample_openai \<noteq> [] \<and>
   fetch_failed (FetchFail failed_to_fetch) \<and>
   resolved_nonempty (openai_getModels sample_parse sample_openai (FetchFail failed_to_fetch)) \<and>
   groq_apiKey (new_GroqProvider None None) = [] \<and>
   groq_getModels sample_parse (new_GroqProvider None None) (FetchFail failed_to_fetch) = Inr []"
  using getModels_fallback[of sample_parse sample_ollama "RequestFail failed_to_fetch"
      sample_openai "FetchFail failed_to_fetch" "new_GroqProvider None None"
      sample_anthropic sample_gemini failed_to_fetch]
  by (simp add: sample_openai_def new_OpenAIProvider_def new_GroqProvider_def nullish_def)

section \<open>The registry\<close>

lemma initializeProviders_config: "config (initializeProviders m) = config m"
  by (simp add: initializeProviders_def Let_def)

lemma initializeProviders_registry:
  "providers m = [] \<Longrightarrow> registry_matches_keys (initializeProviders m)"
  by (simp add: registry_matches_keys_def registered_def getProvider_def
      initializeProviders_def Let_def update_conv')

text \<open>
  Claim C7. After the construction of a \<open>ProviderManager\<close> and after any
  \<open>updateConfig\<close>, the registry has the \<open>ollama\<close> adapter, and it has an adapter for
  \<open>openai\<close>, \<open>anthropic\<close>, \<open>groq\<close> and \<open>gemini\<close> exactly when the API key configured for
  that vendor is a non-empty string.
\<close>

theorem registry_follows_credentials:
  "registry_matches_keys (new_ProviderManager c) \<and>
   config (new_ProviderManager (Some cfg)) = cfg \<and>
   registry_matches_keys (updateConfig cfg m) \<and>
   config (updateConfig cfg m) = cfg"
  by (simp add: new_ProviderManager_def updateConfig_def initializeProviders_registry
      initializeProviders_config nullish_def)

theorem registry_follows_credentials_witness:
  "registry_matches_keys (new_ProviderManager (Some sample_config)) \<and>
   config (new_ProviderManager (Some sample_config)) = sample_config \<and>
   registry_matches_keys (updateConfig sample_config (new_ProviderManager None)) \<and>
   config (updateConfig sample_config (new_ProviderManager None)) = sample_config"
  by (rule registry_follows_credentials)

text \<open>
  Claim C10. \<open>getProviderInfo\<close> returns four entries, for \<open>ollama\<close>, \<open>openai\<close>,
  \<open>anthropic\<close> and \<open>groq\<close>, whatever the configuration; \<open>gemini\<close> is never among them,
  also when its API key is configured and the registry holds its adapter.
\<close>

theorem provider_info_entries:
  "map info_id (getProviderInfo m) = [''ollama'', ''openai'', ''anthropic'', ''groq''] \<and>
   ''gemini'' \<notin> set (map info_id (getProviderInfo m)) \<and>
   (apiKey (gemini cfg) \<noteq> [] \<longrightarrow>
      registered (new_ProviderManager (Some cfg)) ''gemini'' \<and>
      ''gemini'' \<notin> set (map info_id (getProviderInfo (new_ProviderManager (Some cfg)))))"
proof -
  have a: "map info_id (getProviderInfo m) = [''ollama'', ''openai'', ''anthropic'', ''groq'']" for m
    by (simp add: getProviderInfo_def)
  have b: "''gemini'' \<notin> set (map info_id (getProviderInfo m))" for m
    by (simp add: a)
  have "registry_matches_keys (new_ProviderManager (Some cfg))"
    by (simp add: new_ProviderManager_def initializeProviders_registry)
  moreover have "config (new_ProviderManager (Some cfg)) = cfg"
    by (simp add: new_ProviderManager_def initializeProviders_config nullish_def)
  ultimately have c: "apiKey (gemini cfg) \<noteq> [] \<Longrightarrow> registered (new_ProviderManager (Some cfg)) ''gemini''"
    by (simp add: registry_matches_keys_def)
  from a b c show ?thesis by blast
qed

theorem provider_info_entries_witness:
  "apiKey (gemini sample_config) \<noteq> [] \<and>
   registered (new_ProviderManager (Some sample_config)) ''gemini'' \<and>
   ''gemini'' \<notin> set (map info_id (getProviderInfo (new_ProviderManager (Some sample_config)))) \<and>
   map info_id (getProviderInfo (new_ProviderManager (Some sample_config)))
     = [''ollama'', ''openai'', ''anthropic'', ''groq'']"
  using provider_info_entries[of "new_ProviderManager (Some sample_config)" sample_config]
  by (simp add: sample_config_def)

section \<open>Availability\<close>

text \<open>
  Claim C9. With no credential configured, \<open>isAvailable\<close> resolves to \<open>false\<close> and does
  not throw: on OpenAI, Anthropic, Groq and Gemini when the API key is the empty string
  (as it is on a Gemini adapter that was never given a key), and on Ollama when the
  request to the endpoint is rejected.
\<close>

theorem no_credential_unavailable:
  "openai_isAvailable (p1\<lparr>openai_apiKey := []\<rparr>) = Inr False \<and>
   anthropic_isAvailable (p2\<lparr>anthropic_apiKey := []\<rparr>) = Inr False \<and>
   groq_isAvailable (p3\<lparr>groq_apiKey := []\<rparr>) = Inr False \<and>
   gemini_isAvailable (p4\<lparr>gemini_apiKey := []\<rparr>) = Inr False \<and>
   gemini_isAvailable new_GeminiProvider = Inr False \<and>
   ollama_isAvailable p5 (RequestFail e) = Inr False"
  by (simp add: openai_isAvailable_def anthropic_isAvailable_def groq_isAvailable_def
      gemini_isAvailable_def new_GeminiProvider_def ollama_isAvailable_def)

theorem no_credential_unavailable_witness:
  "openai_isAvailable (sample_openai\<lparr>openai_apiKey := []\<rparr>) = Inr False \<and>
   anthropic_isAvailable (sample_anthropic\<lparr>anthropic_apiKey := []\<rparr>) = Inr False \<and>
   groq_isAvailable (sample_groq\<lparr>groq_apiKey := []\<rparr>) = Inr False \<and>
   gemini_isAvailable (sample_gemini\<lparr>gemini_apiKey := []\<rparr>) = Inr False \<and>
   gemini_isAvailable new_GeminiProvider = Inr False \<and>
   ollama_isAvailable sample_ollama (RequestFail failed_to_fetch) = Inr False"
  by (rule no_credential_unavailable)

section \<open>Temperature defaults\<close>

text \<open>\<open>x || d\<close> replaces a zero as it replaces an absent value; \<open>x ?? d\<close> keeps it.\<close>

lemma num_or_zero: "num_or (Some ''0'') d = d"
  by (simp add: num_or_def num_truthy_def)

lemma nullish_zero: "nullish (Some ''0'') d = ''0''"
  by (simp add: nullish_def)

text \<open>
  Claim C8 asks that a temperature the caller supplies, \<open>0\<close> included, is sent unchanged.
  With the temperature \<open>0\<close> in the options, the OpenAI streaming request and the Ollama
  requests carry \<open>0.7\<close> (they default with \<open>||\<close>), the Anthropic request carries no
  temperature at all, and the Gemini request carries \<open>0\<close> (it defaults with \<open>??\<close>).
\<close>

theorem zero_temperature_is_replaced:
  "temperature sample_options = Some ''0'' \<and>
   map_of (openai_stream_payload sample_openai sample_messages ''gpt-4'' (Some sample_options))
     ''temperature'' = Some (Some (JNum ''0.7'')) \<and>
   map_of (ollama_generate_payload sample_ollama ''Say hi'' None (Some sample_options))
     ''options'' = Some (Some (JObj [(''temperature'', JNum ''0.7'')])) \<and>
   map_of (anthropic_stream_payload sample_anthropic sample_messages ''claude-2.1''
     (Some sample_options)) ''temperature'' = None \<and>
   gemini_generationConfig (Some sample_options)
     = JObj [(''temperature'', JNum ''0''), (''maxOutputTokens'', JNum ''2048'')]"
  by code_simp

end
